theory Spec2Isabelle
  imports Main
begin

section \<open>Python strings and paths\<close>

text \<open>
  Python's \<^verbatim>\<open>str\<close> is modelled as \<^typ>\<open>string\<close>. A value that is either
  \<^verbatim>\<open>None\<close> or a \<^verbatim>\<open>str\<close> is a \<^typ>\<open>string option\<close>; its truth value
  (\<^verbatim>\<open>if version:\<close>) is false for \<^verbatim>\<open>None\<close> and for the empty string.
\<close>

definition truthy :: "string option \<Rightarrow> bool" where
  "truthy v = (case v of None \<Rightarrow> False | Some s \<Rightarrow> s \<noteq> [])"

text \<open>\<^verbatim>\<open>s.startswith(p)\<close>.\<close>

fun startswith :: "string \<Rightarrow> string \<Rightarrow> bool" where
  "startswith s [] = True"
| "startswith [] (p # ps) = False"
| "startswith (c # cs) (p # ps) = (c = p \<and> startswith cs ps)"

text \<open>\<^verbatim>\<open>s.endswith(p)\<close>.\<close>

definition endswith :: "string \<Rightarrow> string \<Rightarrow> bool" where
  "endswith s p = startswith (rev s) (rev p)"

text \<open>\<^verbatim>\<open>sub in s\<close> on strings: \<open>sub\<close> occurs in \<open>s\<close> as a contiguous run.\<close>

fun str_in :: "string \<Rightarrow> string \<Rightarrow> bool" where
  "str_in sub [] = (sub = [])"
| "str_in sub (c # cs) = (startswith (c # cs) sub \<or> str_in sub cs)"

text \<open>\<^verbatim>\<open>s.rfind(c)\<close> for a single character: the last index of \<open>c\<close>, or \<open>-1\<close>.\<close>

fun rfind_aux :: "char \<Rightarrow> string \<Rightarrow> int \<Rightarrow> int \<Rightarrow> int" where
  "rfind_aux c [] i best = best"
| "rfind_aux c (x # xs) i best = rfind_aux c xs (i + 1) (if x = c then i else best)"

definition rfind :: "char \<Rightarrow> string \<Rightarrow> int" where
  "rfind c s = rfind_aux c s 0 (- 1)"

text \<open>
  \<^verbatim>\<open>os.path.basename(p)\<close> (posixpath): everything after the last slash.
\<close>

definition basename :: "string \<Rightarrow> string" where
  "basename p = drop (nat (rfind CHR ''/'' p + 1)) p"

text \<open>
  \<^verbatim>\<open>os.path.splitext(p)[0]\<close> (posixpath): the path up to the last dot, when that
  dot comes after the last slash and some character between the slash and the dot is not a
  dot; the whole path otherwise.
\<close>

definition splitext_root :: "string \<Rightarrow> string" where
  "splitext_root p =
     (let sepIndex = rfind CHR ''/'' p;
          dotIndex = rfind CHR ''.'' p
      in if dotIndex > sepIndex \<and>
            list_ex (\<lambda>ch. ch \<noteq> CHR ''.'')
              (take (nat (dotIndex - (sepIndex + 1))) (drop (nat (sepIndex + 1)) p))
         then take (nat dotIndex) p
         else p)"

text \<open>
  \<^verbatim>\<open>os.path.join(a, b)\<close> (posixpath) for two components.
\<close>

definition path_join :: "string \<Rightarrow> string \<Rightarrow> string" where
  "path_join a b =
     (if startswith b ''/'' then b
      else if a = [] \<or> endswith a ''/'' then a @ b
      else a @ ''/'' @ b)"

text \<open>\<^verbatim>\<open>sep.join(xs)\<close>.\<close>

fun str_join :: "string \<Rightarrow> string list \<Rightarrow> string" where
  "str_join sep [] = []"
| "str_join sep [x] = x"
| "str_join sep (x # y # ys) = x @ sep @ str_join sep (y # ys)"


section \<open>Static-to-shared library conversion\<close>

text \<open>
  \<^verbatim>\<open>dso_suffix = 'dylib' if sys.platform == 'darwin' else 'so'\<close>; the host platform
  string \<^verbatim>\<open>sys.platform\<close> is a parameter.
\<close>

definition dso_suffix :: "string \<Rightarrow> string" where
  "dso_suffix sys_platform = (if sys_platform = ''darwin'' then ''dylib'' else ''so'')"

text \<open>
  The keyword arguments of \<^verbatim>\<open>_static_to_shared_library\<close>. A field is \<open>None\<close> when
  the key is absent from \<^verbatim>\<open>kwargs\<close>. For \<^verbatim>\<open>compat_version\<close> an absent key
  (default: the value of \<^verbatim>\<open>version\<close>) differs from a key given as \<^verbatim>\<open>None\<close>, hence
  the nested option.
\<close>

record 'o s2s_kwargs =
  kw_compiler_output :: "'o option"
  kw_arguments :: "string list option"
  kw_version :: "string option"
  kw_compat_version :: "string option option"

text \<open>
  What one call does: the symbolic links it creates, in order, each as
  \<open>(src, dst)\<close> of \<^verbatim>\<open>os.symlink(src, dst)\<close>, and the compiler invocation it ends
  with (the argument list and the \<^verbatim>\<open>output=\<close> keyword).
\<close>

record 'o s2s_effects =
  symlinks :: "(string \<times> string) list"
  compiler_args :: "string list"
  compiler_output :: "'o option"

definition compat_version_of :: "'o s2s_kwargs \<Rightarrow> string option" where
  "compat_version_of kwargs =
     (case kw_compat_version kwargs of None \<Rightarrow> kw_version kwargs | Some v \<Rightarrow> v)"

definition shared_lib_base_of :: "string \<Rightarrow> string \<Rightarrow> string option \<Rightarrow> string" where
  "shared_lib_base_of sys_platform static_lib shared_lib =
     (if \<not> truthy shared_lib
      then splitext_root static_lib @ ''.'' @ dso_suffix sys_platform
      else the shared_lib)"

definition static_to_shared_library ::
  "string \<Rightarrow> string \<Rightarrow> string \<Rightarrow> string option \<Rightarrow> 'o s2s_kwargs \<Rightarrow> 'o s2s_effects" where
  "static_to_shared_library sys_platform arch static_lib shared_lib0 kwargs =
     (let arguments = (case kw_arguments kwargs of None \<Rightarrow> [] | Some a \<Rightarrow> a);
          version = kw_version kwargs;
          compat_version = compat_version_of kwargs;
          shared_lib = shared_lib_base_of sys_platform static_lib shared_lib0;
          compiler_args1 =
            (if str_in ''linux'' arch \<or> str_in ''cray'' arch then
               (let soname = basename shared_lib @
                      (if truthy compat_version then ''.'' @ the compat_version else [])
                in [''-shared'', ''-Wl,-soname,'' @ soname, ''-Wl,--whole-archive'',
                    static_lib, ''-Wl,--no-whole-archive''])
             else if str_in ''darwin'' arch then
               (let install_name = shared_lib @
                      (if truthy compat_version then ''.'' @ the compat_version else [])
                in [''-dynamiclib'', ''-install_name'', install_name,
                    ''-Wl,-force_load,'' @ static_lib]
                   @ (if truthy compat_version
                      then [''-compatibility_version'', the compat_version] else [])
                   @ (if truthy version then [''-current_version'', the version] else []))
             else []);
          compiler_args2 =
            (if length arguments > 0 then compiler_args1 @ arguments else compiler_args1);
          shared_lib_base = shared_lib;
          shared_lib_v =
            (if truthy version then shared_lib @ ''.'' @ the version
             else if truthy compat_version then shared_lib @ ''.'' @ the compat_version
             else shared_lib);
          compiler_args3 = compiler_args2 @ [''-o'', shared_lib_v];
          shared_lib_link = basename shared_lib_v;
          links1 =
            (if truthy version \<or> truthy compat_version
             then [(shared_lib_link, shared_lib_base)] else []);
          links2 =
            (if truthy compat_version \<and> compat_version \<noteq> version
             then links1 @ [(shared_lib_link, shared_lib_base @ ''.'' @ the compat_version)]
             else links1)
      in \<lparr> symlinks = links2, compiler_args = compiler_args3,
           compiler_output = kw_compiler_output kwargs \<rparr>)"


section \<open>Serialisable errors\<close>

text \<open>
  Modelled from the spec: the base class \<^verbatim>\<open>spack.error.SpackError\<close> is not part of
  the sources at hand. Its constructor takes a message and an optional long message and
  stores them; \<^verbatim>\<open>long_message\<close> reads the stored long message; the \<^verbatim>\<open>pkg\<close>
  attribute that the build environment attaches to an \<^verbatim>\<open>InstallError\<close> is absent
  (\<open>None\<close>) on a freshly constructed error.
\<close>

record stop_phase =
  sp_message :: string
  sp_long_message :: "string option"

record 'p install_error =
  ie_message :: string
  ie_long_message :: "string option"
  ie_pkg :: "'p option"

record 'p child_error = "'p install_error" +
  ce_module :: string
  ce_name :: string
  ce_traceback :: string
  ce_context :: "string list"
  ce_build_log :: "string option"
  ce_test_log :: "string option"

text \<open>\<^verbatim>\<open>ChildError.__init__\<close>.\<close>

definition ChildError ::
  "string \<Rightarrow> string \<Rightarrow> string \<Rightarrow> string \<Rightarrow> string list \<Rightarrow> string option \<Rightarrow> string option
   \<Rightarrow> 'p child_error" where
  "ChildError msg module classname traceback_string context build_log test_log =
     \<lparr> ie_message = msg, ie_long_message = None, ie_pkg = None,
       ce_module = module, ce_name = classname, ce_traceback = traceback_string,
       ce_context = context, ce_build_log = build_log, ce_test_log = test_log \<rparr>"

text \<open>
  \<^verbatim>\<open>ChildError.__reduce__\<close> returns the reconstructing function
  \<^verbatim>\<open>_make_child_error\<close> and its argument tuple; unpickling applies the one to the other.
\<close>

type_synonym child_error_args =
  "string \<times> string \<times> string \<times> string \<times> string list \<times> string option \<times> string option"

definition child_error_reduce :: "'p child_error \<Rightarrow> child_error_args" where
  "child_error_reduce self =
     (ie_message self, ce_module self, ce_name self, ce_traceback self, ce_context self,
      ce_build_log self, ce_test_log self)"

definition make_child_error :: "child_error_args \<Rightarrow> 'p child_error" where
  "make_child_error args =
     (case args of (msg, module, name, traceback, context, build_log, test_log) \<Rightarrow>
        ChildError msg module name traceback context build_log test_log)"

text \<open>\<^verbatim>\<open>StopPhase(msg, long_msg)\<close>, \<^verbatim>\<open>StopPhase.__reduce__\<close> and \<^verbatim>\<open>_make_stop_phase\<close>.\<close>

definition StopPhase :: "string \<Rightarrow> string option \<Rightarrow> stop_phase" where
  "StopPhase msg long_msg = \<lparr> sp_message = msg, sp_long_message = long_msg \<rparr>"

definition stop_phase_reduce :: "stop_phase \<Rightarrow> string \<times> string option" where
  "stop_phase_reduce self = (sp_message self, sp_long_message self)"

definition make_stop_phase :: "string \<times> string option \<Rightarrow> stop_phase" where
  "make_stop_phase args = (case args of (msg, long_msg) \<Rightarrow> StopPhase msg long_msg)"


section \<open>The dependency graph\<close>

text \<open>
  Modelled from the spec: the class \<^verbatim>\<open>Spec\<close> (the DependencyNode of the spec) and its
  methods \<^verbatim>\<open>traverse\<close> and \<^verbatim>\<open>dependencies\<close> are not part of the sources at hand.
  A node exposes its name, its install prefix, the directories of its libraries and of its
  headers (\<open>None\<close> when the query raises \<^verbatim>\<open>NoLibrariesError\<close> or
  \<^verbatim>\<open>NoHeadersError\<close>) and its outgoing edges, each with its edge types. The DAG is
  written as a tree: a node shared by two dependents occurs under both, and two occurrences
  are the same node when they are equal.
\<close>

datatype deptype = BuildDep | LinkDep | RunDep | TestDep

datatype spec =
  Spec (spec_name: string) (spec_prefix: string)
       (libs_directories: "string list option") (headers_directories: "string list option")
       (spec_deps: "(deptype list \<times> spec) list")

datatype order = PreOrder | PostOrder

text \<open>
  Modelled from the spec: \<^verbatim>\<open>traverse\<close> walks the DAG depth first along the edges that
  carry one of the requested edge types, visits every node once, and yields a node before
  (pre-order) or after (post-order) the nodes below it. The state is the list of visited nodes
  and the list of nodes yielded so far.
\<close>

definition follows :: "deptype list \<Rightarrow> deptype list \<Rightarrow> bool" where
  "follows deptype ts = list_ex (\<lambda>t. t \<in> set deptype) ts"

fun traverse_node ::
      "order \<Rightarrow> deptype list \<Rightarrow> spec \<Rightarrow> spec list \<times> spec list \<Rightarrow> spec list \<times> spec list"
  and traverse_edges ::
      "order \<Rightarrow> deptype list \<Rightarrow> (deptype list \<times> spec) list \<Rightarrow> spec list \<times> spec list
       \<Rightarrow> spec list \<times> spec list" where
  "traverse_node ord deptype (Spec n p l h ds) (visited, out) =
     (if Spec n p l h ds \<in> set visited then (visited, out)
      else
        (case traverse_edges ord deptype ds
                (Spec n p l h ds # visited,
                 if ord = PreOrder then out @ [Spec n p l h ds] else out) of
           (visited', out') \<Rightarrow>
             (visited', if ord = PostOrder then out' @ [Spec n p l h ds] else out')))"
| "traverse_edges ord deptype [] st = st"
| "traverse_edges ord deptype ((ts, c) # es) st =
     traverse_edges ord deptype es
       (if follows deptype ts then traverse_node ord deptype c st else st)"

text \<open>
  Modelled from the spec: \<^verbatim>\<open>spec.traverse(order=..., root=..., deptype=...)\<close>, as the
  list of the nodes it yields; without \<^verbatim>\<open>root\<close> the walk starts below the root, which
  counts as visited.
\<close>

definition traverse :: "order \<Rightarrow> bool \<Rightarrow> deptype list \<Rightarrow> spec \<Rightarrow> spec list" where
  "traverse ord root deptype s =
     (if root then snd (traverse_node ord deptype s ([], []))
      else snd (traverse_edges ord deptype (spec_deps s) ([s], [])))"

text \<open>
  Modelled from the spec: \<^verbatim>\<open>spec.dependencies(deptype=...)\<close> gives the direct
  dependencies along the edges that carry one of the requested edge types.
\<close>

definition dependencies :: "deptype list \<Rightarrow> spec \<Rightarrow> spec list" where
  "dependencies deptype s = map snd (filter (\<lambda>e. follows deptype (fst e)) (spec_deps s))"

text \<open>
  A node \<open>d\<close> is reachable from \<open>s\<close> when a non-empty path of edges of the requested
  types leads from \<open>s\<close> to \<open>d\<close>.
\<close>

inductive reachable :: "deptype list \<Rightarrow> spec \<Rightarrow> spec \<Rightarrow> bool" for deptype :: "deptype list" where
  direct: "(ts, c) \<in> set (spec_deps s) \<Longrightarrow> follows deptype ts \<Longrightarrow> reachable deptype s c"
| step: "reachable deptype s m \<Longrightarrow> (ts, c) \<in> set (spec_deps m) \<Longrightarrow> follows deptype ts
         \<Longrightarrow> reachable deptype s c"


section \<open>The environment ledger\<close>

text \<open>
  Modelled from the spec: \<^verbatim>\<open>EnvironmentModifications\<close> is not part of the sources at
  hand. The ledger is the ordered list of the operations queued so far; \<^verbatim>\<open>extend\<close>
  appends another ledger. Applying it runs the operations in order: a later \<open>Set\<close> or
  \<open>Unset\<close> of a variable wins, and path operations accumulate. The operation that
  removes a path, which none of the functions below queues, is left out.
\<close>

datatype env_op =
    SetEnv string string
  | UnsetEnv string
  | SetPath string "string list"
  | PrependPath string string
  | AppendPath string string

type_synonym ledger = "env_op list"

fun apply_op :: "env_op \<Rightarrow> (string \<rightharpoonup> string) \<Rightarrow> (string \<rightharpoonup> string)" where
  "apply_op (SetEnv n v) env = env(n \<mapsto> v)"
| "apply_op (UnsetEnv n) env = env(n := None)"
| "apply_op (SetPath n vs) env = env(n \<mapsto> str_join '':'' vs)"
| "apply_op (PrependPath n v) env =
     env(n \<mapsto> (case env n of None \<Rightarrow> v | Some old \<Rightarrow> if old = [] then v else v @ '':'' @ old))"
| "apply_op (AppendPath n v) env =
     env(n \<mapsto> (case env n of None \<Rightarrow> v | Some old \<Rightarrow> if old = [] then v else old @ '':'' @ v))"

definition apply_modifications :: "ledger \<Rightarrow> (string \<rightharpoonup> string) \<Rightarrow> (string \<rightharpoonup> string)" where
  "apply_modifications ops env = fold apply_op ops env"


section \<open>Synthesising the build environment\<close>

text \<open>
  Modelled from the spec: \<^verbatim>\<open>dedupe\<close> (of \<^verbatim>\<open>llnl.util.lang\<close>) yields each element
  the first time it is seen, and \<^verbatim>\<open>filter_system_paths\<close> (of
  \<^verbatim>\<open>spack.util.environment\<close>) keeps the paths that are not system paths. Neither is part
  of the sources at hand, and the predicate \<^verbatim>\<open>is_system_path\<close> is a parameter.
\<close>

fun dedupe_from :: "'a list \<Rightarrow> 'a list \<Rightarrow> 'a list" where
  "dedupe_from seen [] = []"
| "dedupe_from seen (x # xs) =
     (if x \<in> set seen then dedupe_from seen xs else x # dedupe_from (x # seen) xs)"

definition dedupe :: "'a list \<Rightarrow> 'a list" where
  "dedupe xs = dedupe_from [] xs"

definition filter_system_paths :: "(string \<Rightarrow> bool) \<Rightarrow> string list \<Rightarrow> string list" where
  "filter_system_paths is_system paths = filter (\<lambda>p. \<not> is_system p) paths"

text \<open>The position at which an element is first seen in a list (\<^verbatim>\<open>xs.index(x)\<close>).\<close>

definition first_index :: "'a list \<Rightarrow> 'a \<Rightarrow> nat" where
  "first_index xs x = length (takeWhile (\<lambda>y. y \<noteq> x) xs)"

text \<open>The package being built: its spec and its \<^verbatim>\<open>transitive_rpaths\<close> attribute.\<close>

record package =
  pkg_spec :: spec
  transitive_rpaths :: bool

text \<open>
  The surroundings of \<^verbatim>\<open>set_build_environment_variables\<close>: the file system
  (\<^verbatim>\<open>os.path.isdir\<close>), the system-path predicate, the order in which Python iterates over
  the set built from a list of specs, the compiler's attributes, the configuration options and
  the paths and names the function reads from other modules.
\<close>

record build_world =
  isdir :: "string \<Rightarrow> bool"
  is_system_path :: "string \<Rightarrow> bool"
  set_iteration :: "spec list \<Rightarrow> spec list"
  compiler_environment :: ledger
  compiler_extra_rpaths :: "string list"
  compiler_name :: string
  build_env_path :: string
  config_debug :: bool
  config_ccache :: bool
  ccache_binary :: "string option"
  short_spec :: string
  debug_log_id :: string
  spack_working_dir :: string

text \<open>
  \<^verbatim>\<open>get_rpath_deps(pkg)\<close>. The parenthesised \<^verbatim>\<open>('link')\<close> is the string
  \<^verbatim>\<open>'link'\<close>; \<^verbatim>\<open>traverse\<close> is called without an order, which is pre-order.
\<close>

definition get_rpath_deps :: "package \<Rightarrow> spec list" where
  "get_rpath_deps pkg =
     (if transitive_rpaths pkg then traverse PreOrder False [LinkDep] (pkg_spec pkg)
      else dependencies [LinkDep] (pkg_spec pkg))"

text \<open>
  The directories one link dependency contributes: those of its libraries (none when the
  query raises \<^verbatim>\<open>NoLibrariesError\<close>), then its \<^verbatim>\<open>lib\<close> and \<^verbatim>\<open>lib64\<close> when
  they are directories. The query \<^verbatim>\<open>pkg.spec[dep.name]\<close> is the node of that name in
  the DAG of the package, that is \<open>dep\<close> itself.
\<close>

definition dep_link_dirs :: "build_world \<Rightarrow> spec \<Rightarrow> string list" where
  "dep_link_dirs w dep =
     (case libs_directories dep of None \<Rightarrow> [] | Some ds \<Rightarrow> ds)
     @ filter (isdir w) (map (path_join (spec_prefix dep)) [''lib'', ''lib64''])"

text \<open>
  The loop \<^verbatim>\<open>for dep in link_deps\<close> over the lists \<^verbatim>\<open>link_dirs\<close>,
  \<^verbatim>\<open>include_dirs\<close> and \<^verbatim>\<open>rpath_dirs\<close>.
\<close>

fun link_deps_loop ::
  "build_world \<Rightarrow> spec list \<Rightarrow> spec list \<Rightarrow> string list \<times> string list \<times> string list
   \<Rightarrow> string list \<times> string list \<times> string list" where
  "link_deps_loop w rpath_deps [] dirs = dirs"
| "link_deps_loop w rpath_deps (dep # deps) (link_dirs, include_dirs, rpath_dirs) =
     (if is_system_path w (spec_prefix dep)
      then link_deps_loop w rpath_deps deps (link_dirs, include_dirs, rpath_dirs)
      else link_deps_loop w rpath_deps deps
             (link_dirs @ dep_link_dirs w dep,
              include_dirs @ (case headers_directories dep of None \<Rightarrow> [] | Some hs \<Rightarrow> hs),
              if dep \<in> set rpath_deps then rpath_dirs @ dep_link_dirs w dep else rpath_dirs))"

text \<open>
  The three lists before they are filtered and de-duplicated (the candidates), and after.
\<close>

definition candidate_dirs ::
  "build_world \<Rightarrow> package \<Rightarrow> string list \<times> string list \<times> string list" where
  "candidate_dirs w pkg =
     (let link_deps = set_iteration w (traverse PreOrder False [LinkDep] (pkg_spec pkg));
          rpath_deps = get_rpath_deps pkg
      in link_deps_loop w rpath_deps link_deps
           ([], [], map (path_join (spec_prefix (pkg_spec pkg))) [''lib'', ''lib64'']))"

definition link_dirs :: "build_world \<Rightarrow> package \<Rightarrow> string list" where
  "link_dirs w pkg =
     dedupe (filter_system_paths (is_system_path w) (fst (candidate_dirs w pkg)))"

definition include_dirs :: "build_world \<Rightarrow> package \<Rightarrow> string list" where
  "include_dirs w pkg =
     dedupe (filter_system_paths (is_system_path w) (fst (snd (candidate_dirs w pkg))))"

definition rpath_dirs :: "build_world \<Rightarrow> package \<Rightarrow> string list" where
  "rpath_dirs w pkg =
     dedupe (filter_system_paths (is_system_path w) (snd (snd (candidate_dirs w pkg))))"

text \<open>
  \<^verbatim>\<open>build_deps\<close>, \<^verbatim>\<open>build_link_deps\<close> and the two prefix lists, in the order in
  which the sets are iterated.
\<close>

definition build_deps :: "build_world \<Rightarrow> package \<Rightarrow> spec list" where
  "build_deps w pkg = set_iteration w (dependencies [BuildDep, TestDep] (pkg_spec pkg))"

definition build_link_deps :: "build_world \<Rightarrow> package \<Rightarrow> spec list" where
  "build_link_deps w pkg =
     set_iteration w (dependencies [BuildDep, TestDep] (pkg_spec pkg)
                      @ traverse PreOrder False [LinkDep] (pkg_spec pkg))"

definition build_prefixes :: "build_world \<Rightarrow> package \<Rightarrow> string list" where
  "build_prefixes w pkg =
     filter_system_paths (is_system_path w)
       (map spec_prefix (build_deps w pkg)
        @ concat (map (\<lambda>build_dep. map spec_prefix (traverse PreOrder True [RunDep] build_dep))
                    (build_deps w pkg)))"

definition build_link_prefixes :: "build_world \<Rightarrow> package \<Rightarrow> string list" where
  "build_link_prefixes w pkg =
     filter_system_paths (is_system_path w) (map spec_prefix (build_link_deps w pkg))"

definition env_paths :: "build_world \<Rightarrow> string list" where
  "env_paths w =
     concat (map (\<lambda>item. item # filter (isdir w) [path_join item ''case-insensitive''])
               [build_env_path w, path_join (build_env_path w) (compiler_name w)])"

text \<open>
  \<^verbatim>\<open>set_build_environment_variables(pkg, env, dirty)\<close>: the ledger with the operations
  appended, or the \<^verbatim>\<open>RuntimeError\<close> raised when ccache is requested and not found.
\<close>

definition set_build_environment_variables ::
  "build_world \<Rightarrow> package \<Rightarrow> ledger \<Rightarrow> bool \<Rightarrow> string + ledger" where
  "set_build_environment_variables w pkg env dirty =
     (let env1 = env @ [SetEnv ''SPACK_LINK_DIRS'' (str_join '':'' (link_dirs w pkg)),
                        SetEnv ''SPACK_INCLUDE_DIRS'' (str_join '':'' (include_dirs w pkg)),
                        SetEnv ''SPACK_RPATH_DIRS'' (str_join '':'' (rpath_dirs w pkg)),
                        SetPath ''CMAKE_PREFIX_PATH'' (build_link_prefixes w pkg)]
                   @ compiler_environment w
                   @ (if compiler_extra_rpaths w \<noteq> []
                      then [SetEnv ''SPACK_COMPILER_EXTRA_RPATHS''
                              (str_join '':'' (compiler_extra_rpaths w))]
                      else [])
                   @ concat (map (\<lambda>prefix. map (PrependPath ''PATH'')
                                    (filter (isdir w) (map (path_join prefix) [''bin'', ''bin64''])))
                               (build_prefixes w pkg))
                   @ map (PrependPath ''PATH'') (env_paths w)
                   @ [SetPath ''SPACK_ENV_PATH'' (env_paths w)]
                   @ (if config_debug w then [SetEnv ''SPACK_DEBUG'' ''TRUE''] else [])
                   @ [SetEnv ''SPACK_SHORT_SPEC'' (short_spec w),
                      SetEnv ''SPACK_DEBUG_LOG_ID'' (debug_log_id w),
                      SetEnv ''SPACK_DEBUG_LOG_DIR'' (spack_working_dir w)]
      in if config_ccache w \<and> \<not> truthy (ccache_binary w)
         then Inl ''No ccache binary found in PATH''
         else Inr (env1
                   @ (if config_ccache w
                      then [SetEnv ''SPACK_CCACHE_BINARY'' (the (ccache_binary w))] else [])
                   @ concat (map (\<lambda>prefix. map (PrependPath ''PKG_CONFIG_PATH'')
                                    (filter (isdir w)
                                       (map (\<lambda>directory.
                                               path_join (path_join prefix directory) ''pkgconfig'')
                                          [''lib'', ''lib64'', ''share''])))
                               (build_link_prefixes w pkg))))"


section \<open>Composing the environment of the dependencies\<close>

text \<open>
  What the recipes of the packages contribute, as parameters: the hook of a dependency named
  by \<open>method\<close> (given the dependency, the dependent and the ledger, the ledger after
  the call) and \<^verbatim>\<open>setup_dependent_package\<close> (given the dependency, the dependent and the
  module scope of the dependent, the scope after the call). Both are taken to return.
\<close>

record 'm recipe_world =
  dependent_environment_hook :: "string \<Rightarrow> spec \<Rightarrow> spec \<Rightarrow> ledger \<Rightarrow> ledger"
  setup_dependent_package :: "spec \<Rightarrow> spec \<Rightarrow> 'm \<Rightarrow> 'm"

text \<open>What is done for the dependencies, in order.\<close>

datatype dep_event =
    SetModuleVariables spec
  | SetupDependentPackage spec spec
  | EnvironmentHook string spec spec

record 'm composer_state =
  cs_env :: ledger
  cs_module :: 'm
  cs_trace :: "dep_event list"

text \<open>The dictionary \<^verbatim>\<open>deptype_and_method\<close>; a missing key is \<open>None\<close>.\<close>

definition deptype_and_method :: "string \<Rightarrow> (deptype list \<times> string) option" where
  "deptype_and_method context =
     (if context = ''build''
      then Some ([BuildDep, LinkDep, TestDep], ''setup_dependent_build_environment'')
      else if context = ''run''
      then Some ([LinkDep, RunDep], ''setup_dependent_run_environment'')
      else if context = ''test''
      then Some ([LinkDep, RunDep, TestDep], ''setup_dependent_run_environment'')
      else None)"

text \<open>The body of the loop \<^verbatim>\<open>for dspec in spec.traverse(...)\<close>.\<close>

definition dependency_step ::
  "'m recipe_world \<Rightarrow> string \<Rightarrow> spec \<Rightarrow> spec \<Rightarrow> 'm composer_state \<Rightarrow> 'm composer_state" where
  "dependency_step w method spec dspec st =
     \<lparr> cs_env = dependent_environment_hook w method dspec spec (cs_env st),
       cs_module = setup_dependent_package w dspec spec (cs_module st),
       cs_trace = cs_trace st @ [SetModuleVariables dspec, SetupDependentPackage dspec spec,
                                  EnvironmentHook method dspec spec] \<rparr>"

text \<open>
  \<^verbatim>\<open>modifications_from_dependencies(spec, context)\<close>, given the module scope of the
  package of \<open>spec\<close>: \<open>None\<close> for the \<^verbatim>\<open>KeyError\<close> of an unknown context, or the
  ledger it returns together with the module scope and the trace.
\<close>

definition modifications_from_dependencies ::
  "'m recipe_world \<Rightarrow> 'm \<Rightarrow> spec \<Rightarrow> string \<Rightarrow> 'm composer_state option" where
  "modifications_from_dependencies w module spec context =
     (case deptype_and_method context of
        None \<Rightarrow> None
      | Some (deptype, method) \<Rightarrow>
          Some (fold (dependency_step w method spec)
                  (traverse PostOrder False deptype spec)
                  \<lparr> cs_env = [], cs_module = module, cs_trace = [] \<rparr>))"


text \<open>
  A concrete chain of three packages, \<open>app \<rightarrow> libpng \<rightarrow> zlib\<close>, and a build world for
  examples: \<^verbatim>\<open>lib\<close> exists under the two dependencies, the system paths are the three
  canonical ones, and a set is iterated in the order of first insertion.
\<close>

definition example_zlib :: spec where
  "example_zlib = Spec ''zlib'' ''/opt/zlib'' None (Some [''/opt/zlib/include'']) []"

definition example_libpng :: spec where
  "example_libpng =
     Spec ''libpng'' ''/opt/libpng'' (Some [''/opt/libpng/lib'', ''/usr/local''])
       (Some [''/opt/libpng/include'', ''/usr'', ''/opt/zlib/include''])
       [([BuildDep, LinkDep], example_zlib)]"

definition example_app :: spec where
  "example_app = Spec ''app'' ''/opt/app'' None None [([LinkDep], example_libpng)]"

definition example_isdir :: "string \<Rightarrow> bool" where
  "example_isdir p = (p \<in> set [''/opt/libpng/lib'', ''/opt/zlib/lib''])"

definition example_is_system_path :: "string \<Rightarrow> bool" where
  "example_is_system_path p = (p \<in> set [''/'', ''/usr'', ''/usr/local''])"

definition example_build_world :: build_world where
  "example_build_world =
     \<lparr> isdir = example_isdir, is_system_path = example_is_system_path,
       set_iteration = dedupe, compiler_environment = [], compiler_extra_rpaths = [],
       compiler_name = ''gcc'', build_env_path = ''/spack/env'', config_debug = False,
       config_ccache = False, ccache_binary = None, short_spec = ''app@1.0'',
       debug_log_id = ''app-abcdefg'', spack_working_dir = ''/home/user'' \<rparr>"


definition example_package :: "bool \<Rightarrow> package" where
  "example_package transitive = \<lparr> pkg_spec = example_app, transitive_rpaths = transitive \<rparr>"


text \<open>
  Concrete recipes for examples: the environment hook of a dependency sets the variable
  \<^verbatim>\<open>X\<close> to the name of the dependency, and \<^verbatim>\<open>setup_dependent_package\<close> records
  that name in the module scope of the dependent, here a list of names.
\<close>

definition example_hook :: "string \<Rightarrow> spec \<Rightarrow> spec \<Rightarrow> ledger \<Rightarrow> ledger" where
  "example_hook method dspec spec env = env @ [SetEnv ''X'' (spec_name dspec)]"

definition example_setup_dependent_package :: "spec \<Rightarrow> spec \<Rightarrow> string list \<Rightarrow> string list" where
  "example_setup_dependent_package dspec spec module = module @ [spec_name dspec]"

definition example_recipe_world :: "string list recipe_world" where
  "example_recipe_world =
     \<lparr> dependent_environment_hook = example_hook,
       setup_dependent_package = example_setup_dependent_package \<rparr>"


section \<open>Rendering a child error\<close>

text \<open>
  The collaborators of the error reporter that are not part of the sources at hand are
  parameters: \<^verbatim>\<open>os.path.exists\<close>, \<^verbatim>\<open>parse_log_events\<close> (a log path to its
  error events and its warning events), \<^verbatim>\<open>make_log_context\<close> (events to the excerpt
  text) and \<^verbatim>\<open>plural\<close> (a count and a noun to text such as \<^verbatim>\<open>2 errors\<close>).
\<close>

record 'e log_world =
  path_exists :: "string \<Rightarrow> bool"
  parse_log_events :: "string \<Rightarrow> 'e list \<times> 'e list"
  make_log_context :: "'e list \<Rightarrow> string"
  plural :: "nat \<Rightarrow> string \<Rightarrow> string"

text \<open>
  \<^verbatim>\<open>write_log_summary(out, log_type, log, last=None)\<close>. The stream \<open>out\<close> is the
  text written so far; \<open>last_n\<close> (the argument \<^verbatim>\<open>last\<close>) is \<open>None\<close> or a count, and \<^verbatim>\<open>if last\<close> is false
  for zero as well. \<^verbatim>\<open>errors[-last:]\<close> keeps the last events of that count.
\<close>

definition write_log_summary ::
  "'e log_world \<Rightarrow> string \<Rightarrow> string \<Rightarrow> string \<Rightarrow> nat option \<Rightarrow> string" where
  "write_log_summary w out log_type log last_n =
     (case parse_log_events w log of (errors, warnings) \<Rightarrow>
        (let nerr = length errors; nwar = length warnings;
             lim = (case last_n of None \<Rightarrow> 0 | Some n \<Rightarrow> n)
         in if nerr > 0 then
              (let cut = (lim \<noteq> 0 \<and> nerr > lim);
                   errors' = (if cut then drop (nerr - lim) errors else errors);
                   nerr' = (if cut then lim else nerr)
               in out @ (''\<newline>'' @ plural w nerr' ''error'' @ '' found in '' @ log_type @
                          '' log:\<newline>'')
                      @ make_log_context w errors')
            else if nwar > 0 then
              (let cut = (lim \<noteq> 0 \<and> nwar > lim);
                   warnings' = (if cut then drop (nwar - lim) warnings else warnings);
                   nwar' = (if cut then lim else nwar)
               in out @ (''\<newline>'' @ plural w nwar' ''warning'' @ '' found in '' @ log_type @
                          '' log:\<newline>'')
                      @ make_log_context w warnings')
            else out))"

text \<open>\<^verbatim>\<open>ChildError.build_errors\<close>.\<close>

definition build_errors :: "(string \<times> string) list" where
  "build_errors = [(''spack.util.executable'', ''ProcessError'')]"

text \<open>The property \<^verbatim>\<open>ChildError.long_message\<close>.\<close>

definition long_message :: "'e log_world \<Rightarrow> 'p child_error \<Rightarrow> string" where
  "long_message w self =
     (let out0 = (if truthy (ie_long_message self) then the (ie_long_message self) else []);
          has_build = (truthy (ce_build_log self) \<and> path_exists w (the (ce_build_log self)));
          has_test = (truthy (ce_test_log self) \<and> path_exists w (the (ce_test_log self)));
          out1 =
            (if (ce_module self, ce_name self) \<in> set build_errors then
               (let o1 = (if has_build
                          then write_log_summary w out0 ''build'' (the (ce_build_log self)) None
                          else out0)
                in if has_test
                   then write_log_summary w o1 ''test'' (the (ce_test_log self)) None
                   else o1)
             else
               (if ce_context self \<noteq> []
                then out0 @ ''\<newline>'' @ str_join ''\<newline>'' (ce_context self) @ ''\<newline>''
                else out0));
          out2 = (if out1 \<noteq> [] then out1 @ ''\<newline>'' else out1);
          out3 = (if has_build
                  then out2 @ ''See build log for details:\<newline>''
                            @ ''  '' @ the (ce_build_log self) @ ''\<newline>''
                  else out2)
      in if has_test
         then out3 @ ''See test log for details:\<newline>''
                   @ ''  '' @ the (ce_test_log self) @ ''\<newline>''
         else out3)"


text \<open>
  A concrete log world for examples: one build log exists, and it holds one error and one
  warning.
\<close>

definition example_log_exists :: "string \<Rightarrow> bool" where
  "example_log_exists p = (p = ''/stage/spack-build-out.txt'')"

definition example_parse_log :: "string \<Rightarrow> string list \<times> string list" where
  "example_parse_log p = ([''foo.c:3: error: x undeclared''], [''foo.c:1: warning: unused''])"

definition example_log_context :: "string list \<Rightarrow> string" where
  "example_log_context evs = str_join ''\<newline>'' evs"

definition example_plural :: "nat \<Rightarrow> string \<Rightarrow> string" where
  "example_plural n noun = (if n = 1 then ''1 '' @ noun else ''several '' @ noun @ ''s'')"

definition example_log_world :: "string log_world" where
  "example_log_world =
     \<lparr> path_exists = example_log_exists, parse_log_events = example_parse_log,
       make_log_context = example_log_context, plural = example_plural \<rparr>"


section \<open>The build isolation runner\<close>

text \<open>
  What the child's handler reads from \<^verbatim>\<open>sys.exc_info()\<close> for an exception that is not a
  \<^verbatim>\<open>StopPhase\<close>: the module and the name of its type, \<^verbatim>\<open>str(exc)\<close> (\<open>None\<close>
  when that call raises), the frames of \<^verbatim>\<open>traceback.extract_tb(tb)\<close> and the text of
  \<^verbatim>\<open>traceback.format_exc()\<close>. Module and name are arbitrary strings, so the exception
  is of any type whatsoever.
\<close>

record frame =
  fr_filename :: string
  fr_lineno :: int
  fr_function :: string
  fr_text :: string

record exc_info =
  exc_module :: string
  exc_name :: string
  exc_str :: "string option"
  exc_tb :: "frame list"
  exc_tb_string :: string

text \<open>
  An exception raised in the child is a \<^verbatim>\<open>StopPhase\<close> (the first \<^verbatim>\<open>except\<close> clause) or
  anything else (the clause \<^verbatim>\<open>except BaseException\<close>).
\<close>

datatype raised = RaisedStopPhase stop_phase | RaisedOther exc_info

text \<open>
  A Python value as the parent tells them apart with \<^verbatim>\<open>isinstance\<close>: a
  \<^verbatim>\<open>StopPhase\<close>, a \<^verbatim>\<open>ChildError\<close>, an \<^verbatim>\<open>InstallError\<close> that is not a
  \<^verbatim>\<open>ChildError\<close>, or any other value.
\<close>

datatype ('v, 'p) pyval =
    VPlain 'v
  | VStopPhase stop_phase
  | VChildError "'p child_error"
  | VInstallError "'p install_error"

text \<open>
  How a call in the child ends: it returns a value, it raises, or the process ends without
  raising (\<^verbatim>\<open>os._exit\<close>, a signal).
\<close>

datatype ('v, 'p) outcome = Returns "('v, 'p) pyval" | Raises raised | Exits

text \<open>An exception that leaves \<^verbatim>\<open>fork\<close> in the parent.\<close>

datatype 'p parent_exc =
    PStopPhase stop_phase
  | PChildError "'p child_error"
  | PInstallError "'p install_error"
  | POther exc_info

text \<open>
  How \<^verbatim>\<open>fork\<close> ends: it returns, it raises, or it never returns because the parent
  stays blocked in \<^verbatim>\<open>parent_pipe.recv()\<close>.
\<close>

datatype ('v, 'p) fork_result =
    ForkReturn "('v, 'p) pyval"
  | ForkRaise "'p parent_exc"
  | ForkBlocks

text \<open>What the parent does, in order.\<close>

datatype 'p event =
    EvDupStdin
  | EvStart
  | EvCloseInput
  | EvRecv
  | EvJoin
  | EvPrintContext "'p child_error"

text \<open>
  How the \<^verbatim>\<open>try\<close> block that spawns the child ends: the process starts, or duplicating
  the standard input raises, or \<^verbatim>\<open>p.start()\<close> raises.
\<close>

datatype 'p spawn = Spawned | DupFailed "'p parent_exc" | StartFailed "'p parent_exc"

text \<open>
  The fields of the package that \<^verbatim>\<open>fork\<close> reads: \<^verbatim>\<open>log_path\<close> (\<open>None\<close> when
  the attribute is missing), \<^verbatim>\<open>test_suite.stage\<close> (\<open>None\<close> when reading it raises,
  as it does for a package without a test suite) and the name
  \<^verbatim>\<open>TestSuite.test_log_name(pkg.spec)\<close>.
\<close>

record fork_package =
  log_path :: "string option"
  test_suite_stage :: "string option"
  test_log_name :: string

text \<open>
  The surroundings of one call. \<^verbatim>\<open>setup_package\<close> is given the package, \<open>dirty\<close>
  and the context, and returns or raises; \<open>send_error\<close> is the exception, if any, that
  \<^verbatim>\<open>child_pipe.send(return_value)\<close> raises when the value cannot be pickled;
  \<open>readlines\<close> is the content of a file as \<^verbatim>\<open>open(filename, 'r')\<close> and
  \<^verbatim>\<open>f.readlines()\<close> give it, \<open>None\<close> when either raises;
  \<^verbatim>\<open>spack.paths.is_package_file\<close>, \<^verbatim>\<open>colorize\<close> and \<^verbatim>\<open>cescape\<close> are not part
  of the sources at hand.
\<close>

record ('v, 'p) fork_world =
  stdin_isatty :: bool
  spawn :: "'p spawn"
  setup_package :: "fork_package \<Rightarrow> bool \<Rightarrow> string \<Rightarrow> raised option"
  send_error :: "('v, 'p) pyval \<Rightarrow> exc_info option"
  readlines :: "string \<Rightarrow> string list option"
  is_package_file :: "string \<Rightarrow> bool"
  colorize :: "string \<Rightarrow> string"
  cescape :: "string \<Rightarrow> string"

text \<open>Decimal text of a number, as \<^verbatim>\<open>'{0:d}'.format(n)\<close> gives it.\<close>

fun str_of_nat :: "nat \<Rightarrow> string" where
  "str_of_nat n =
     (if n < 10 then [''0123456789'' ! n]
      else str_of_nat (n div 10) @ [''0123456789'' ! (n mod 10)])"

declare str_of_nat.simps [simp del]

definition str_of_int :: "int \<Rightarrow> string" where
  "str_of_int i = (if i < 0 then ''-'' @ str_of_nat (nat (- i)) else str_of_nat (nat i))"

text \<open>\<^verbatim>\<open>'{0:-6d}'.format(n)\<close>: the decimal text, padded on the left to six characters.\<close>

definition format_6d :: "int \<Rightarrow> string" where
  "format_6d i = replicate (6 - length (str_of_int i)) CHR '' '' @ str_of_int i"

text \<open>\<^verbatim>\<open>line.rstrip()\<close>: the line without its trailing white space.\<close>

definition rstrip :: "string \<Rightarrow> string" where
  "rstrip s =
     rev (dropWhile (\<lambda>c. c \<in> set [CHR '' '', CHR 0x09, CHR 0x0A, CHR 0x0B, CHR 0x0C, CHR 0x0D])
            (rev s))"

text \<open>\<^verbatim>\<open>xs[start:stop]\<close>: a negative index counts from the end, and both are clipped.\<close>

definition py_slice :: "'a list \<Rightarrow> int \<Rightarrow> int \<Rightarrow> 'a list" where
  "py_slice xs start stop =
     (let n = int (length xs);
          clip = (\<lambda>i. if i < 0 then max 0 (n + i) else min i n)
      in drop (nat (clip start)) (take (nat (clip stop)) xs))"

text \<open>
  The loop of \<^verbatim>\<open>get_package_context\<close> over the reversed traceback: the frame its
  variables hold when it ends, by \<^verbatim>\<open>break\<close> or at the last frame; none for an empty
  traceback, where the variables stay unbound.
\<close>

definition in_package_code :: "frame \<Rightarrow> bool" where
  "in_package_code f =
     ((str_in ''package.py'' (fr_filename f) \<or> str_in ''spack/build_systems'' (fr_filename f))
      \<and> fr_function f \<notin> set [''run_test'', ''_run_test_helper''])"

fun frame_after_loop :: "frame list \<Rightarrow> frame option" where
  "frame_after_loop [] = None"
| "frame_after_loop (f # fs) =
     (if in_package_code f \<or> fs = [] then Some f else frame_after_loop fs)"

text \<open>
  \<^verbatim>\<open>get_package_context(traceback, context=3)\<close>: the lines of context, or \<open>None\<close>
  when the function raises, for an empty traceback or a file that cannot be read.
\<close>

definition get_package_context ::
  "('v, 'p) fork_world \<Rightarrow> frame list \<Rightarrow> int \<Rightarrow> string list option" where
  "get_package_context w traceback context =
     (case frame_after_loop (rev traceback) of
        None \<Rightarrow> None
      | Some f \<Rightarrow>
          (let filename = fr_filename f;
               function = fr_function f;
               adjust = (if is_package_file w filename then 1 else 0);
               lineno = fr_lineno f - adjust;
               lines = [filename @ '':'' @ str_of_int lineno @ '', in '' @ function @ '':'']
           in case readlines w filename of
                None \<Rightarrow> None
              | Some all_lines \<Rightarrow>
                  (let start = max 0 (lineno - context - 1);
                       sourcelines = py_slice all_lines start (lineno + context + 1)
                   in Some (lines @
                        map (\<lambda>(k, line).
                               (let i = int k + adjust;
                                    is_error = (start + i = lineno);
                                    mark = (if is_error then ''>> '' else ''   '');
                                    marked = ''  '' @ mark @ format_6d (start + i) @ rstrip line
                                in if is_error
                                   then colorize w (''@R{'' @ cescape w marked @ ''}'')
                                   else marked))
                            (enumerate 0 sourcelines)))))"

definition is_test_failure :: "exc_info \<Rightarrow> bool" where
  "is_test_failure x = (exc_module x = ''spack.install_test'' \<and> exc_name x = ''TestFailure'')"

text \<open>
  The \<^verbatim>\<open>try\<close> block of \<^verbatim>\<open>child_process\<close>: the value it has sent, what it raises, or
  the end of the process.
\<close>

definition child_try ::
  "('v, 'p) fork_world \<Rightarrow> fork_package \<Rightarrow> ('v, 'p) outcome \<Rightarrow> bool \<Rightarrow> bool \<Rightarrow> string
   \<Rightarrow> ('v, 'p) outcome" where
  "child_try w pkg function dirty fake context =
     (case (if \<not> fake then setup_package w pkg dirty context else None) of
        Some r \<Rightarrow> Raises r
      | None \<Rightarrow>
          (case function of
             Raises r \<Rightarrow> Raises r
           | Exits \<Rightarrow> Exits
           | Returns return_value \<Rightarrow>
               (case send_error w return_value of
                  Some x \<Rightarrow> Raises (RaisedOther x)
                | None \<Rightarrow> Returns return_value)))"

text \<open>
  The handler \<^verbatim>\<open>except BaseException\<close>: the \<^verbatim>\<open>ChildError\<close> it builds, or \<open>None\<close>
  when the handler itself raises: in \<^verbatim>\<open>get_package_context\<close>, in reading
  \<^verbatim>\<open>pkg.test_suite.stage\<close> or in \<^verbatim>\<open>str(exc)\<close>, in this order. Nothing in the handler
  catches that.
\<close>

definition child_error_of ::
  "('v, 'p) fork_world \<Rightarrow> fork_package \<Rightarrow> string \<Rightarrow> exc_info \<Rightarrow> 'p child_error option" where
  "child_error_of w pkg context x =
     (let tb_string = exc_tb_string x
      in case (if \<not> is_test_failure x then get_package_context w (exc_tb x) 3 else Some []) of
           None \<Rightarrow> None
         | Some package_context \<Rightarrow>
             (let build_log =
                    (if context = ''build'' \<and> log_path pkg \<noteq> None then log_path pkg else None)
              in case (if context = ''test''
                       then (case test_suite_stage pkg of
                               None \<Rightarrow> None
                             | Some stage \<Rightarrow> Some (Some (path_join stage (test_log_name pkg))))
                       else Some None) of
                   None \<Rightarrow> None
                 | Some test_log \<Rightarrow>
                     (case exc_str x of
                        None \<Rightarrow> None
                      | Some s \<Rightarrow>
                          Some (ChildError (exc_name x @ '': '' @ s) (exc_module x) (exc_name x)
                                  tb_string package_context build_log test_log))))"

text \<open>
  \<^verbatim>\<open>child_process\<close>: the value it sends through the pipe, or \<open>None\<close> when it sends
  nothing, because the handler raises or the process ends.
\<close>

definition child_process ::
  "('v, 'p) fork_world \<Rightarrow> fork_package \<Rightarrow> ('v, 'p) outcome \<Rightarrow> bool \<Rightarrow> bool \<Rightarrow> string
   \<Rightarrow> ('v, 'p) pyval option" where
  "child_process w pkg function dirty fake context =
     (case child_try w pkg function dirty fake context of
        Returns return_value \<Rightarrow> Some return_value
      | Exits \<Rightarrow> None
      | Raises (RaisedStopPhase e) \<Rightarrow> Some (VStopPhase e)
      | Raises (RaisedOther x) \<Rightarrow>
          (case child_error_of w pkg context x of
             None \<Rightarrow> None
           | Some ce \<Rightarrow> Some (VChildError ce)))"

text \<open>
  The pipe pickles what is sent and unpickles it in the parent: a \<^verbatim>\<open>ChildError\<close> and a
  \<^verbatim>\<open>StopPhase\<close> are rebuilt from their \<^verbatim>\<open>__reduce__\<close>; every other value is taken
  to arrive as it was sent.
\<close>

definition pipe_transfer :: "('v, 'p) pyval \<Rightarrow> ('v, 'p) pyval" where
  "pipe_transfer v =
     (case v of
        VChildError c \<Rightarrow> VChildError (make_child_error (child_error_reduce c))
      | VStopPhase s \<Rightarrow> VStopPhase (make_stop_phase (stop_phase_reduce s))
      | _ \<Rightarrow> v)"

text \<open>
  \<^verbatim>\<open>except InstallError as e: e.pkg = pkg; raise\<close>: the clause matches an
  \<^verbatim>\<open>InstallError\<close> (a \<^verbatim>\<open>ChildError\<close> is one); any other exception passes it by.
\<close>

definition tag_install_error :: "'p \<Rightarrow> 'p parent_exc \<Rightarrow> 'p parent_exc" where
  "tag_install_error pkg e =
     (case e of
        PInstallError ie \<Rightarrow> PInstallError (ie\<lparr>ie_pkg := Some pkg\<rparr>)
      | PChildError ce \<Rightarrow> PChildError (ce\<lparr>ie_pkg := Some pkg\<rparr>)
      | _ \<Rightarrow> e)"

text \<open>\<^verbatim>\<open>getattr(e, 'pkg', None)\<close> of an exception.\<close>

definition exc_pkg :: "'p parent_exc \<Rightarrow> 'p option" where
  "exc_pkg e =
     (case e of PInstallError ie \<Rightarrow> ie_pkg ie | PChildError ce \<Rightarrow> ie_pkg ce | _ \<Rightarrow> None)"

text \<open>
  The parent after \<^verbatim>\<open>parent_pipe.recv()\<close> and \<^verbatim>\<open>p.join()\<close>: the events it adds and
  how \<^verbatim>\<open>fork\<close> ends.
\<close>

definition parent_dispatch ::
  "'p \<Rightarrow> ('v, 'p) pyval \<Rightarrow> 'p event list \<times> ('v, 'p) fork_result" where
  "parent_dispatch pkg child_result =
     (case child_result of
        VStopPhase s \<Rightarrow> ([], ForkRaise (PStopPhase s))
      | VInstallError ie \<Rightarrow> ([], ForkReturn (VInstallError (ie\<lparr>ie_pkg := Some pkg\<rparr>)))
      | VChildError ce \<Rightarrow>
          ([EvPrintContext (ce\<lparr>ie_pkg := Some pkg\<rparr>)],
           ForkRaise (PChildError (ce\<lparr>ie_pkg := Some pkg\<rparr>)))
      | VPlain v \<Rightarrow> ([], ForkReturn (VPlain v)))"

text \<open>
  The parent once the child has started: it receives, and when the child has sent a value it
  joins the child and dispatches on the value. When the child has sent nothing, the parent,
  which still holds its own copy of the child's end of the pipe, waits in
  \<^verbatim>\<open>parent_pipe.recv()\<close> for good.
\<close>

definition parent_receive ::
  "'p \<Rightarrow> ('v, 'p) pyval option \<Rightarrow> 'p event list \<times> ('v, 'p) fork_result" where
  "parent_receive pkg sent =
     (case sent of
        None \<Rightarrow> ([EvRecv], ForkBlocks)
      | Some v \<Rightarrow>
          (case parent_dispatch pkg (pipe_transfer v) of
             (evs, r) \<Rightarrow> ([EvRecv, EvJoin] @ evs, r)))"

text \<open>
  \<^verbatim>\<open>fork(pkg, function, dirty, fake, context)\<close>. The package is given twice: as the
  fields the child reads and as the identity \<open>pkg_id\<close> that the parent stores in the
  \<^verbatim>\<open>pkg\<close> attribute.
\<close>

definition fork ::
  "('v, 'p) fork_world \<Rightarrow> 'p \<Rightarrow> fork_package \<Rightarrow> ('v, 'p) outcome \<Rightarrow> bool \<Rightarrow> bool \<Rightarrow> string
   \<Rightarrow> 'p event list \<times> ('v, 'p) fork_result" where
  "fork w pkg_id pkg function dirty fake context =
     (if stdin_isatty w then
        (case spawn w of
           DupFailed e \<Rightarrow> ([], ForkRaise (tag_install_error pkg_id e))
         | StartFailed e \<Rightarrow>
             ([EvDupStdin, EvCloseInput], ForkRaise (tag_install_error pkg_id e))
         | Spawned \<Rightarrow>
             (case parent_receive pkg_id (child_process w pkg function dirty fake context) of
                (evs, r) \<Rightarrow> ([EvDupStdin, EvStart, EvCloseInput] @ evs, r)))
      else
        (case spawn w of
           StartFailed e \<Rightarrow> ([], ForkRaise (tag_install_error pkg_id e))
         | _ \<Rightarrow>
             (case parent_receive pkg_id (child_process w pkg function dirty fake context) of
                (evs, r) \<Rightarrow> ([EvStart] @ evs, r))))"


text \<open>
  A concrete world, package and exceptions, used to run \<^verbatim>\<open>fork\<close> on examples: the
  standard input is not a terminal, package setup succeeds, every value can be pickled, and
  the recipe file of the package can be read or not.
\<close>

definition setup_ok :: "fork_package \<Rightarrow> bool \<Rightarrow> string \<Rightarrow> raised option" where
  "setup_ok pkg dirty context = None"

definition send_ok :: "(unit, string) pyval \<Rightarrow> exc_info option" where
  "send_ok v = None"

definition example_readlines :: "bool \<Rightarrow> string \<Rightarrow> string list option" where
  "example_readlines readable filename =
     (if readable \<and> filename = ''/repo/packages/zlib/package.py''
      then Some [''from spack import *\<newline>'',
                 ''class Zlib(Package):\<newline>'',
                 ''    def install(self, spec, prefix):\<newline>'',
                 ''        raise ValueError(1)\<newline>'']
      else None)"

definition example_is_package_file :: "string \<Rightarrow> bool" where
  "example_is_package_file filename = (filename = ''/repo/packages/zlib/package.py'')"

definition example_colorize :: "string \<Rightarrow> string" where
  "example_colorize s = s"

definition example_cescape :: "string \<Rightarrow> string" where
  "example_cescape s = s"

definition example_fork_world_reading :: "bool \<Rightarrow> string spawn \<Rightarrow> (unit, string) fork_world" where
  "example_fork_world_reading readable sp =
     \<lparr> stdin_isatty = False, spawn = sp, setup_package = setup_ok, send_error = send_ok,
       readlines = example_readlines readable, is_package_file = example_is_package_file,
       colorize = example_colorize, cescape = example_cescape \<rparr>"

definition example_fork_world :: "string spawn \<Rightarrow> (unit, string) fork_world" where
  "example_fork_world sp = example_fork_world_reading True sp"

definition example_fork_package :: fork_package where
  "example_fork_package =
     \<lparr> log_path = Some ''/stage/spack-build-out.txt'', test_suite_stage = Some ''/test'',
       test_log_name = ''zlib-test-out.txt'' \<rparr>"

definition example_value_error :: exc_info where
  "example_value_error =
     \<lparr> exc_module = ''builtins'', exc_name = ''ValueError'', exc_str = Some ''bad value'',
       exc_tb = [\<lparr> fr_filename = ''/spack/lib/spack/spack/build_environment.py'',
                   fr_lineno = 867, fr_function = ''child_process'',
                   fr_text = ''return_value = function()'' \<rparr>,
                 \<lparr> fr_filename = ''/repo/packages/zlib/package.py'',
                   fr_lineno = 5, fr_function = ''install'',
                   fr_text = ''raise ValueError(1)'' \<rparr>],
       exc_tb_string = ''Traceback (most recent call last): ...'' \<rparr>"

definition example_os_error :: exc_info where
  "example_os_error =
     \<lparr> exc_module = ''builtins'', exc_name = ''OSError'',
       exc_str = Some ''[Errno 11] Resource temporarily unavailable'',
       exc_tb = [], exc_tb_string = ''Traceback (most recent call last): ...'' \<rparr>"


text \<open>
  Two more worlds and a package for examples. In the first, \<^verbatim>\<open>lib\<close> exists under
  \<^verbatim>\<open>libpng\<close> only, so that \<^verbatim>\<open>zlib\<close>, whose library query finds nothing, provides
  headers alone. In the second, the \<^verbatim>\<open>lib\<close> and \<^verbatim>\<open>lib64\<close> directories under
  \<^verbatim>\<open>/usr\<close> are system paths as well, and the package has the prefix \<^verbatim>\<open>/usr\<close>.
\<close>

definition example_isdir_libpng_only :: "string \<Rightarrow> bool" where
  "example_isdir_libpng_only p = (p = ''/opt/libpng/lib'')"

definition example_build_world_header_only :: build_world where
  "example_build_world_header_only = example_build_world \<lparr> isdir := example_isdir_libpng_only \<rparr>"

definition example_is_system_dir :: "string \<Rightarrow> bool" where
  "example_is_system_dir p =
     (p \<in> set [''/'', ''/usr'', ''/usr/local'', ''/usr/lib'', ''/usr/lib64''])"

definition example_build_world_system_dirs :: build_world where
  "example_build_world_system_dirs =
     example_build_world \<lparr> is_system_path := example_is_system_dir \<rparr>"

definition example_usr_package :: package where
  "example_usr_package =
     \<lparr> pkg_spec = Spec ''app'' ''/usr'' None None [([LinkDep], example_libpng)],
       transitive_rpaths = True \<rparr>"


section \<open>Properties of the static-to-shared conversion\<close>

text \<open>
  Claim C7. When a version or a compatibility version is supplied (a non-empty string), the
  path after \<^verbatim>\<open>-o\<close> is the base name suffixed with the version, or with the
  compatibility version when only that one is supplied; the first symbolic link goes from the
  unversioned base name to the versioned artifact; a second link, from the compat-versioned
  name, is created exactly when a compatibility version is supplied and differs from the
  version. On a Linux or Cray architecture the invocation contains \<^verbatim>\<open>-shared\<close> and an
  argument \<^verbatim>\<open>-Wl,-soname,...\<close>; on a Darwin architecture it contains
  \<^verbatim>\<open>-dynamiclib\<close> and \<^verbatim>\<open>-install_name\<close>.
\<close>

theorem static_to_shared_versioned:
  fixes kwargs :: "'o s2s_kwargs"
    and sys_platform arch static_lib :: string
    and shared_lib :: "string option"
  defines "v \<equiv> kw_version kwargs"
      and "cv \<equiv> compat_version_of kwargs"
      and "r \<equiv> static_to_shared_library sys_platform arch static_lib shared_lib kwargs"
      and "base \<equiv> shared_lib_base_of sys_platform static_lib shared_lib"
  defines "out \<equiv> base @ ''.'' @ (if truthy v then the v else the cv)"
  shows "(truthy v \<or> truthy cv \<longrightarrow>
           (\<exists>pre. compiler_args r = pre @ [''-o'', out]) \<and>
           symlinks r =
             (basename out, base) #
             (if truthy cv \<and> cv \<noteq> v then [(basename out, base @ ''.'' @ the cv)] else []))
       \<and> (str_in ''linux'' arch \<or> str_in ''cray'' arch \<longrightarrow>
           ''-shared'' \<in> set (compiler_args r) \<and>
           (\<exists>a \<in> set (compiler_args r). startswith a ''-Wl,-soname,''))
       \<and> (str_in ''darwin'' arch \<and> \<not> (str_in ''linux'' arch \<or> str_in ''cray'' arch) \<longrightarrow>
           ''-dynamiclib'' \<in> set (compiler_args r) \<and>
           ''-install_name'' \<in> set (compiler_args r))"
  unfolding r_def out_def base_def v_def cv_def
  by (auto simp: static_to_shared_library_def Let_def)

theorem static_to_shared_versioned_witness:
  "(truthy (Some ''1.2'') \<or> truthy (Some ''1''))
   \<and> str_in ''linux'' ''linux-ubuntu18.04-x86_64''
   \<and> compiler_args (static_to_shared_library ''linux'' ''linux-ubuntu18.04-x86_64''
         ''/p/libfoo.a'' None
         \<lparr> kw_compiler_output = (None :: unit option), kw_arguments = None,
           kw_version = Some ''1.2'', kw_compat_version = Some (Some ''1'') \<rparr>)
       = [''-shared'', ''-Wl,-soname,libfoo.so.1'', ''-Wl,--whole-archive'', ''/p/libfoo.a'',
          ''-Wl,--no-whole-archive'', ''-o'', ''/p/libfoo.so.1.2'']
   \<and> symlinks (static_to_shared_library ''linux'' ''linux-ubuntu18.04-x86_64''
         ''/p/libfoo.a'' None
         \<lparr> kw_compiler_output = (None :: unit option), kw_arguments = None,
           kw_version = Some ''1.2'', kw_compat_version = Some (Some ''1'') \<rparr>)
       = [(''libfoo.so.1.2'', ''/p/libfoo.so''), (''libfoo.so.1.2'', ''/p/libfoo.so.1'')]
   \<and> str_in ''darwin'' ''darwin-mojave-x86_64''
   \<and> \<not> (str_in ''linux'' ''darwin-mojave-x86_64'' \<or> str_in ''cray'' ''darwin-mojave-x86_64'')
   \<and> ''-dynamiclib'' \<in> set (compiler_args (static_to_shared_library ''darwin''
         ''darwin-mojave-x86_64'' ''/p/libfoo.a'' None
         \<lparr> kw_compiler_output = (None :: unit option), kw_arguments = None,
           kw_version = Some ''1.2'', kw_compat_version = None \<rparr>))
   \<and> symlinks (static_to_shared_library ''darwin'' ''darwin-mojave-x86_64''
         ''/p/libfoo.a'' None
         \<lparr> kw_compiler_output = (None :: unit option), kw_arguments = None,
           kw_version = Some ''1.2'', kw_compat_version = None \<rparr>)
       = [(''libfoo.dylib.1.2'', ''/p/libfoo.dylib'')]"
  using static_to_shared_versioned [where
          kwargs = "\<lparr> kw_compiler_output = (None :: unit option), kw_arguments = None,
             kw_version = Some ''1.2'', kw_compat_version = Some (Some ''1'') \<rparr>"
          and sys_platform = "''linux''" and arch = "''linux-ubuntu18.04-x86_64''"
          and static_lib = "''/p/libfoo.a''" and shared_lib = None]
        static_to_shared_versioned [where
          kwargs = "\<lparr> kw_compiler_output = (None :: unit option), kw_arguments = None,
             kw_version = Some ''1.2'', kw_compat_version = None \<rparr>"
          and sys_platform = "''darwin''" and arch = "''darwin-mojave-x86_64''"
          and static_lib = "''/p/libfoo.a''" and shared_lib = None]
  by (simp add: static_to_shared_library_def shared_lib_base_of_def compat_version_of_def
        truthy_def splitext_root_def basename_def rfind_def dso_suffix_def Let_def)

text \<open>
  Claim C10. When neither a version nor a compatibility version is supplied, no symbolic link
  is created and the path after \<^verbatim>\<open>-o\<close> is the caller's \<^verbatim>\<open>shared_lib\<close>, or, when
  that is not given, the static library's path with its extension replaced by the platform's
  suffix: \<^verbatim>\<open>dylib\<close> on Darwin and \<^verbatim>\<open>so\<close> elsewhere.
\<close>

theorem static_to_shared_unversioned:
  fixes kwargs :: "'o s2s_kwargs"
    and sys_platform arch static_lib :: string
    and shared_lib :: "string option"
  defines "r \<equiv> static_to_shared_library sys_platform arch static_lib shared_lib kwargs"
  assumes "\<not> truthy (kw_version kwargs)" and "\<not> truthy (compat_version_of kwargs)"
  shows "symlinks r = [] \<and>
         (\<exists>pre. compiler_args r = pre @
            [''-o'', if truthy shared_lib then the shared_lib
                     else splitext_root static_lib @ ''.'' @
                          (if sys_platform = ''darwin'' then ''dylib'' else ''so'')])"
  using assms(2,3) unfolding r_def
  by (auto simp: static_to_shared_library_def shared_lib_base_of_def dso_suffix_def Let_def)

theorem static_to_shared_unversioned_witness:
  "\<not> truthy (kw_version \<lparr> kw_compiler_output = (None :: unit option),
        kw_arguments = Some [''-lm''], kw_version = None, kw_compat_version = None \<rparr>)
   \<and> \<not> truthy (compat_version_of \<lparr> kw_compiler_output = (None :: unit option),
        kw_arguments = Some [''-lm''], kw_version = None, kw_compat_version = None \<rparr>)
   \<and> symlinks (static_to_shared_library ''linux'' ''linux-rhel7-x86_64'' ''/p/lib/libz.a'' None
        \<lparr> kw_compiler_output = (None :: unit option), kw_arguments = Some [''-lm''],
          kw_version = None, kw_compat_version = None \<rparr>) = []
   \<and> compiler_args (static_to_shared_library ''linux'' ''linux-rhel7-x86_64''
        ''/p/lib/libz.a'' None
        \<lparr> kw_compiler_output = (None :: unit option), kw_arguments = Some [''-lm''],
          kw_version = None, kw_compat_version = None \<rparr>)
       = [''-shared'', ''-Wl,-soname,libz.so'', ''-Wl,--whole-archive'', ''/p/lib/libz.a'',
          ''-Wl,--no-whole-archive'', ''-lm'', ''-o'', ''/p/lib/libz.so'']
   \<and> splitext_root ''/p/lib/libz.a'' = ''/p/lib/libz''"
  using static_to_shared_unversioned [where
          kwargs = "\<lparr> kw_compiler_output = (None :: unit option), kw_arguments = Some [''-lm''],
             kw_version = None, kw_compat_version = None \<rparr>"
          and sys_platform = "''linux''" and arch = "''linux-rhel7-x86_64''"
          and static_lib = "''/p/lib/libz.a''" and shared_lib = None]
  by (simp add: static_to_shared_library_def shared_lib_base_of_def compat_version_of_def
        truthy_def splitext_root_def basename_def rfind_def dso_suffix_def Let_def)


section \<open>Properties of error serialisation\<close>

text \<open>
  Claim C9. Rebuilding a \<^verbatim>\<open>ChildError\<close> from what its \<^verbatim>\<open>__reduce__\<close> returns gives
  a \<^verbatim>\<open>ChildError\<close> with the same message, module, name, traceback, context, build log and
  test log; rebuilding a \<^verbatim>\<open>StopPhase\<close> from its \<^verbatim>\<open>__reduce__\<close> gives a
  \<^verbatim>\<open>StopPhase\<close> with the same message and long message.
\<close>

theorem reduce_roundtrip:
  fixes e :: "'p child_error" and s :: stop_phase
  defines "e' \<equiv> (make_child_error (child_error_reduce e) :: 'p child_error)"
  shows "ie_message e' = ie_message e \<and> ce_module e' = ce_module e \<and> ce_name e' = ce_name e
       \<and> ce_traceback e' = ce_traceback e \<and> ce_context e' = ce_context e
       \<and> ce_build_log e' = ce_build_log e \<and> ce_test_log e' = ce_test_log e
       \<and> make_stop_phase (stop_phase_reduce s) = s"
  unfolding e'_def
  by (simp add: make_child_error_def child_error_reduce_def ChildError_def
        make_stop_phase_def stop_phase_reduce_def StopPhase_def)


section \<open>Properties of the build isolation runner\<close>

lemma parent_dispatch_cases:
  "parent_dispatch pkg_id v =
     (case v of
        VStopPhase s \<Rightarrow> ([], ForkRaise (PStopPhase s))
      | VInstallError ie \<Rightarrow> ([], ForkReturn (VInstallError (ie\<lparr>ie_pkg := Some pkg_id\<rparr>)))
      | VChildError ce \<Rightarrow>
          ([EvPrintContext (ce\<lparr>ie_pkg := Some pkg_id\<rparr>)],
           ForkRaise (PChildError (ce\<lparr>ie_pkg := Some pkg_id\<rparr>)))
      | VPlain v \<Rightarrow> ([], ForkReturn (VPlain v)))"
  by (simp add: parent_dispatch_def)

lemma fork_spawned:
  "spawn w = Spawned \<Longrightarrow>
   fork w pkg_id pkg function dirty fake context =
     ((if stdin_isatty w then [EvDupStdin, EvStart, EvCloseInput] else [EvStart])
        @ fst (parent_receive pkg_id (child_process w pkg function dirty fake context)),
      snd (parent_receive pkg_id (child_process w pkg function dirty fake context)))"
  by (simp add: fork_def split: prod.splits)

text \<open>
  When the child sends a value, what the parent receives is of one of three kinds: a
  \<^verbatim>\<open>StopPhase\<close>, which \<^verbatim>\<open>fork\<close> re-raises and never prints; a
  \<^verbatim>\<open>ChildError\<close>, whose context it prints after receiving and joining and which it then
  raises; or any other value, which it returns. An exception that leaves the \<^verbatim>\<open>try\<close>
  block of the child and is not a \<^verbatim>\<open>StopPhase\<close> reaches the handler, and is sent as a
  \<^verbatim>\<open>ChildError\<close> with the module and the name of its type when the handler returns. The
  handler raises, and the child sends nothing, exactly when the package context cannot be
  computed, the stage of the test suite cannot be read in the test context, or
  \<^verbatim>\<open>str(exc)\<close> raises; the parent then never leaves \<^verbatim>\<open>recv\<close>.
\<close>

lemma fork_result_kinds:
  fixes w :: "('v, 'p) fork_world"
    and pkg func dirty fake ctx pkg_id
  assumes "spawn w = Spawned"
  defines "sent \<equiv> child_process w pkg func dirty fake ctx"
      and "res \<equiv> fork w pkg_id pkg func dirty fake ctx"
  shows "(case sent of
            None \<Rightarrow> snd res = ForkBlocks \<and> EvJoin \<notin> set (fst res)
          | Some v \<Rightarrow>
             (case pipe_transfer v of
                VStopPhase s \<Rightarrow>
                  snd res = ForkRaise (PStopPhase s) \<and> (\<forall>c. EvPrintContext c \<notin> set (fst res))
              | VChildError c \<Rightarrow>
                  snd res = ForkRaise (PChildError (c\<lparr>ie_pkg := Some pkg_id\<rparr>)) \<and>
                  (\<exists>pre. fst res =
                     pre @ [EvRecv, EvJoin, EvPrintContext (c\<lparr>ie_pkg := Some pkg_id\<rparr>)])
              | VInstallError ie \<Rightarrow>
                  snd res = ForkReturn (VInstallError (ie\<lparr>ie_pkg := Some pkg_id\<rparr>)) \<and>
                  (\<forall>c. EvPrintContext c \<notin> set (fst res))
              | VPlain v \<Rightarrow>
                  snd res = ForkReturn (VPlain v) \<and> (\<forall>c. EvPrintContext c \<notin> set (fst res))))
       \<and> (\<forall>x. child_try w pkg func dirty fake ctx = Raises (RaisedOther x) \<longrightarrow>
              sent = map_option VChildError (child_error_of w pkg ctx x))
       \<and> (\<forall>x ce. child_error_of w pkg ctx x = Some ce \<longrightarrow>
              ce_module ce = exc_module x \<and> ce_name ce = exc_name x)
       \<and> (\<forall>x. child_error_of w pkg ctx x = (None :: 'p child_error option) \<longleftrightarrow>
              (\<not> is_test_failure x \<and> get_package_context w (exc_tb x) 3 = None) \<or>
              (ctx = ''test'' \<and> test_suite_stage pkg = None) \<or> exc_str x = None)
       \<and> (\<forall>x. func = Raises (RaisedOther x) \<and>
              (fake \<or> setup_package w pkg dirty ctx = None) \<longrightarrow>
              child_try w pkg func dirty fake ctx = Raises (RaisedOther x))
       \<and> (\<forall>s. child_try w pkg func dirty fake ctx = Raises (RaisedStopPhase s) \<longrightarrow>
              sent = Some (VStopPhase s))
       \<and> (\<forall>x. snd res \<noteq> ForkRaise (POther x))
       \<and> (\<forall>ie. snd res \<noteq> ForkRaise (PInstallError ie))"
proof -
  have res: "res = ((if stdin_isatty w then [EvDupStdin, EvStart, EvCloseInput] else [EvStart])
                      @ fst (parent_receive pkg_id sent),
                    snd (parent_receive pkg_id sent))"
    unfolding res_def sent_def using assms(1) by (rule fork_spawned)
  have recv: "parent_receive pkg_id (Some v) =
                ([EvRecv, EvJoin] @ fst (parent_dispatch pkg_id (pipe_transfer v)),
                 snd (parent_dispatch pkg_id (pipe_transfer v)))" for v :: "('v, 'p) pyval"
    by (simp add: parent_receive_def split: prod.splits)
  have kinds: "(case sent of
            None \<Rightarrow> snd res = ForkBlocks \<and> EvJoin \<notin> set (fst res)
          | Some v \<Rightarrow>
             (case pipe_transfer v of
                VStopPhase s \<Rightarrow>
                  snd res = ForkRaise (PStopPhase s) \<and> (\<forall>c. EvPrintContext c \<notin> set (fst res))
              | VChildError c \<Rightarrow>
                  snd res = ForkRaise (PChildError (c\<lparr>ie_pkg := Some pkg_id\<rparr>)) \<and>
                  (\<exists>pre. fst res =
                     pre @ [EvRecv, EvJoin, EvPrintContext (c\<lparr>ie_pkg := Some pkg_id\<rparr>)])
              | VInstallError ie \<Rightarrow>
                  snd res = ForkReturn (VInstallError (ie\<lparr>ie_pkg := Some pkg_id\<rparr>)) \<and>
                  (\<forall>c. EvPrintContext c \<notin> set (fst res))
              | VPlain v \<Rightarrow>
                  snd res = ForkReturn (VPlain v) \<and> (\<forall>c. EvPrintContext c \<notin> set (fst res))))"
  proof (cases sent)
    case None
    then show ?thesis by (simp add: res parent_receive_def)
  next
    case (Some v)
    then show ?thesis
      by (cases "pipe_transfer v") (auto simp: res recv parent_dispatch_cases)
  qed
  have conv: "\<forall>x. child_try w pkg func dirty fake ctx = Raises (RaisedOther x) \<longrightarrow>
              sent = map_option VChildError (child_error_of w pkg ctx x)"
    by (simp add: sent_def child_process_def map_option_case)
  have ident: "\<forall>x ce. child_error_of w pkg ctx x = Some ce \<longrightarrow>
              ce_module ce = exc_module x \<and> ce_name ce = exc_name x"
    by (auto simp: child_error_of_def ChildError_def Let_def split: option.splits if_splits)
  have fails: "\<forall>x. child_error_of w pkg ctx x = (None :: 'p child_error option) \<longleftrightarrow>
              (\<not> is_test_failure x \<and> get_package_context w (exc_tb x) 3 = None) \<or>
              (ctx = ''test'' \<and> test_suite_stage pkg = None) \<or> exc_str x = None"
    by (auto simp: child_error_of_def Let_def split: option.splits if_splits)
  have body: "\<forall>x. func = Raises (RaisedOther x) \<and>
              (fake \<or> setup_package w pkg dirty ctx = None) \<longrightarrow>
              child_try w pkg func dirty fake ctx = Raises (RaisedOther x)"
    by (auto simp: child_try_def)
  have stop: "\<forall>s. child_try w pkg func dirty fake ctx = Raises (RaisedStopPhase s) \<longrightarrow>
              sent = Some (VStopPhase s)"
    by (simp add: sent_def child_process_def)
  have raw: "(\<forall>x. snd res \<noteq> ForkRaise (POther x)) \<and> (\<forall>ie. snd res \<noteq> ForkRaise (PInstallError ie))"
  proof (cases sent)
    case None
    then show ?thesis by (simp add: res parent_receive_def)
  next
    case (Some v)
    then show ?thesis
      by (cases "pipe_transfer v") (auto simp: res recv parent_dispatch_cases)
  qed
  from kinds conv ident fails body stop raw show ?thesis by blast
qed

text \<open>
  Claim C1. The claim does not hold of the code when the handler of the child raises. Here
  the build action raises a \<^verbatim>\<open>ValueError\<close> from the recipe file of the package, and that
  file cannot be read when the handler looks for the context of the failure:
  \<^verbatim>\<open>get_package_context\<close> raises inside the handler, no \<^verbatim>\<open>ChildError\<close> is built, the
  child sends nothing, and \<^verbatim>\<open>fork\<close> never leaves \<^verbatim>\<open>recv\<close>. With the file readable,
  the same failure reaches the parent as a \<^verbatim>\<open>ChildError\<close>.
\<close>

theorem fork_handler_failure:
  "child_try (example_fork_world_reading False Spawned) example_fork_package
       (Raises (RaisedOther example_value_error)) False False ''build''
     = Raises (RaisedOther example_value_error)
   \<and> get_package_context (example_fork_world_reading False Spawned)
       (exc_tb example_value_error) 3 = None
   \<and> child_error_of (example_fork_world_reading False Spawned) example_fork_package ''build''
       example_value_error = (None :: string child_error option)
   \<and> child_process (example_fork_world_reading False Spawned) example_fork_package
       (Raises (RaisedOther example_value_error)) False False ''build'' = None
   \<and> fork (example_fork_world_reading False Spawned) ''zlib'' example_fork_package
       (Raises (RaisedOther example_value_error)) False False ''build''
     = ([EvStart, EvRecv], ForkBlocks)
   \<and> fork (example_fork_world_reading True Spawned) ''zlib'' example_fork_package
       (Raises (RaisedOther example_value_error)) False False ''build''
     = ([EvStart, EvRecv, EvJoin,
         EvPrintContext
           ((ChildError ''ValueError: bad value'' ''builtins'' ''ValueError''
               ''Traceback (most recent call last): ...''
               [''/repo/packages/zlib/package.py:4, in install:'',
                ''          1from spack import *'',
                ''          2class Zlib(Package):'',
                ''          3    def install(self, spec, prefix):'',
                ''@R{  >>      4        raise ValueError(1)}'']
               (Some ''/stage/spack-build-out.txt'') None) \<lparr>ie_pkg := Some ''zlib''\<rparr>)],
        ForkRaise (PChildError
           ((ChildError ''ValueError: bad value'' ''builtins'' ''ValueError''
               ''Traceback (most recent call last): ...''
               [''/repo/packages/zlib/package.py:4, in install:'',
                ''          1from spack import *'',
                ''          2class Zlib(Package):'',
                ''          3    def install(self, spec, prefix):'',
                ''@R{  >>      4        raise ValueError(1)}'']
               (Some ''/stage/spack-build-out.txt'') None) \<lparr>ie_pkg := Some ''zlib''\<rparr>)))"
  by code_simp

text \<open>
  Claim C8, as amended. When the \<^verbatim>\<open>try\<close> block that spawns the child raises, \<^verbatim>\<open>fork\<close>
  raises that exception and never receives from the pipe. The exception is tagged with the
  package being built when it is an \<^verbatim>\<open>InstallError\<close>; an exception of any other kind
  leaves \<^verbatim>\<open>fork\<close> unchanged, without the tag.
\<close>

theorem fork_spawn_failure:
  fixes w :: "('v, 'p) fork_world"
    and pkg func dirty fake ctx pkg_id e
  assumes "spawn w = StartFailed e \<or> (stdin_isatty w \<and> spawn w = DupFailed e)"
  defines "res \<equiv> fork w pkg_id pkg func dirty fake ctx"
  shows "snd res = ForkRaise (tag_install_error pkg_id e)
       \<and> EvRecv \<notin> set (fst res)
       \<and> ((\<exists>ie. e = PInstallError ie) \<or> (\<exists>ce. e = PChildError ce) \<longrightarrow>
            exc_pkg (tag_install_error pkg_id e) = Some pkg_id)
       \<and> ((\<exists>s. e = PStopPhase s) \<or> (\<exists>x. e = POther x) \<longrightarrow> tag_install_error pkg_id e = e)"
  using assms(1) unfolding res_def
  by (cases e) (auto simp: fork_def tag_install_error_def exc_pkg_def)

theorem fork_spawn_failure_witness:
  "spawn (example_fork_world
            (StartFailed (PInstallError \<lparr>ie_message = ''no fork'', ie_long_message = None,
                                         ie_pkg = None\<rparr>)))
     = StartFailed (PInstallError \<lparr>ie_message = ''no fork'', ie_long_message = None,
                                   ie_pkg = None\<rparr>)
   \<and> fork (example_fork_world
            (StartFailed (PInstallError \<lparr>ie_message = ''no fork'', ie_long_message = None,
                                         ie_pkg = None\<rparr>)))
        ''zlib'' example_fork_package (Returns (VPlain ())) False False ''build''
     = ([], ForkRaise (PInstallError \<lparr>ie_message = ''no fork'', ie_long_message = None,
                                      ie_pkg = Some ''zlib''\<rparr>))"
  using fork_spawn_failure [where w = "example_fork_world
            (StartFailed (PInstallError \<lparr>ie_message = ''no fork'', ie_long_message = None,
                                         ie_pkg = None\<rparr>))"
          and e = "PInstallError \<lparr>ie_message = ''no fork'', ie_long_message = None,
                                   ie_pkg = None\<rparr>"
          and pkg_id = "''zlib''" and pkg = example_fork_package
          and func = "Returns (VPlain ())" and dirty = False and fake = False
          and ctx = "''build''"]
  by (simp add: example_fork_world_def example_fork_world_reading_def fork_def
        tag_install_error_def)

text \<open>
  The claim as first stated fails for a spawn-time \<^verbatim>\<open>OSError\<close>: it leaves
  \<^verbatim>\<open>fork\<close> as it was raised and carries no \<^verbatim>\<open>pkg\<close> attribute.
\<close>

theorem fork_spawn_os_error_untagged:
  "snd (fork (example_fork_world (StartFailed (POther example_os_error)))
          ''zlib'' example_fork_package (Returns (VPlain ())) False False ''build'')
     = ForkRaise (POther example_os_error)
   \<and> exc_pkg (POther example_os_error :: string parent_exc) \<noteq> Some ''zlib''"
  by (simp add: example_fork_world_def example_fork_world_reading_def fork_def
        tag_install_error_def exc_pkg_def)


section \<open>Properties of error rendering\<close>

lemma write_log_summary_append:
  "write_log_summary w out log_type log last_n = out @ write_log_summary w [] log_type log last_n"
  by (simp add: write_log_summary_def Let_def split: prod.splits)

text \<open>
  Claim C3. \<^verbatim>\<open>write_log_summary\<close> writes an error excerpt when the parsed log has at
  least one error, a warning excerpt when it has no error and at least one warning, and
  nothing otherwise. The long message of a \<^verbatim>\<open>ChildError\<close> whose module and name are in
  \<^verbatim>\<open>build_errors\<close> is its stored long message, the summaries of the build and test logs
  that exist, and the pointers to those logs: no source context. For every other
  \<^verbatim>\<open>ChildError\<close> it is the stored long message, the source context lines and the
  pointers, and it does not depend on how logs are parsed or rendered: no log excerpt.
\<close>

theorem child_error_rendering:
  fixes w :: "'e log_world" and e :: "'p child_error"
    and out log_type log :: string and last_n :: "nat option"
  defines "errors \<equiv> fst (parse_log_events w log)"
      and "warnings \<equiv> snd (parse_log_events w log)"
      and "keep \<equiv> (\<lambda>evs. case last_n of
                             None \<Rightarrow> evs
                           | Some n \<Rightarrow> if n \<noteq> 0 \<and> length evs > n
                                      then drop (length evs - n) evs else evs)"
  defines "excerpt \<equiv> (\<lambda>noun evs.
             ''\<newline>'' @ plural w (length (keep evs)) noun @ '' found in '' @ log_type @
             '' log:\<newline>'' @ make_log_context w (keep evs))"
  defines "has_build \<equiv> truthy (ce_build_log e) \<and> path_exists w (the (ce_build_log e))"
      and "has_test \<equiv> truthy (ce_test_log e) \<and> path_exists w (the (ce_test_log e))"
      and "out0 \<equiv> (if truthy (ie_long_message e) then the (ie_long_message e) else [])"
  defines "pointers \<equiv> (\<lambda>s.
             (if s \<noteq> [] then s @ ''\<newline>'' else s)
             @ (if has_build then ''See build log for details:\<newline>'' @ ''  '' @
                  the (ce_build_log e) @ ''\<newline>'' else [])
             @ (if has_test then ''See test log for details:\<newline>'' @ ''  '' @
                  the (ce_test_log e) @ ''\<newline>'' else []))"
  shows "write_log_summary w out log_type log last_n =
           (if errors \<noteq> [] then out @ excerpt ''error'' errors
            else if warnings \<noteq> [] then out @ excerpt ''warning'' warnings
            else out)
       \<and> ((ce_module e, ce_name e) \<in> set build_errors \<longrightarrow>
            long_message w e =
              pointers (out0
                @ (if has_build
                   then write_log_summary w [] ''build'' (the (ce_build_log e)) None else [])
                @ (if has_test
                   then write_log_summary w [] ''test'' (the (ce_test_log e)) None else [])))
       \<and> ((ce_module e, ce_name e) \<notin> set build_errors \<longrightarrow>
            long_message w e =
              pointers (out0
                @ (if ce_context e \<noteq> []
                   then ''\<newline>'' @ str_join ''\<newline>'' (ce_context e) @ ''\<newline>'' else []))
            \<and> (\<forall>p m q. long_message
                   (w\<lparr>parse_log_events := p, make_log_context := m, plural := q\<rparr>) e
                 = long_message w e))"
proof -
  have W: "write_log_summary w out log_type log last_n =
           (if errors \<noteq> [] then out @ excerpt ''error'' errors
            else if warnings \<noteq> [] then out @ excerpt ''warning'' warnings
            else out)"
    unfolding errors_def warnings_def excerpt_def keep_def
    by (cases "parse_log_events w log"; cases last_n)
       (auto simp: write_log_summary_def Let_def)
  define Sb where "Sb = write_log_summary w [] ''build'' (the (ce_build_log e)) None"
  define St where "St = write_log_summary w [] ''test'' (the (ce_test_log e)) None"
  have sb: "write_log_summary w x ''build'' (the (ce_build_log e)) None = x @ Sb" for x
    unfolding Sb_def by (rule write_log_summary_append)
  have st: "write_log_summary w x ''test'' (the (ce_test_log e)) None = x @ St" for x
    unfolding St_def by (rule write_log_summary_append)
  have B: "(ce_module e, ce_name e) \<in> set build_errors \<Longrightarrow>
            long_message w e =
              pointers (out0
                @ (if has_build
                   then write_log_summary w [] ''build'' (the (ce_build_log e)) None else [])
                @ (if has_test
                   then write_log_summary w [] ''test'' (the (ce_test_log e)) None else []))"
    unfolding pointers_def
    by (cases has_build; cases has_test)
       (simp_all add: long_message_def Let_def sb st
          has_build_def [symmetric] has_test_def [symmetric] out0_def [symmetric])
  have C: "(ce_module e, ce_name e) \<notin> set build_errors \<Longrightarrow>
            long_message w' e =
              (let hb = truthy (ce_build_log e) \<and> path_exists w' (the (ce_build_log e));
                   ht = truthy (ce_test_log e) \<and> path_exists w' (the (ce_test_log e));
                   s = out0 @ (if ce_context e \<noteq> []
                     then ''\<newline>'' @ str_join ''\<newline>'' (ce_context e) @ ''\<newline>'' else [])
               in (if s \<noteq> [] then s @ ''\<newline>'' else s)
             @ (if hb then ''See build log for details:\<newline>'' @ ''  '' @
                  the (ce_build_log e) @ ''\<newline>'' else [])
             @ (if ht then ''See test log for details:\<newline>'' @ ''  '' @
                  the (ce_test_log e) @ ''\<newline>'' else []))" for w' :: "'e log_world"
    unfolding out0_def by (simp add: long_message_def Let_def)
  have C1: "(ce_module e, ce_name e) \<notin> set build_errors \<Longrightarrow>
            long_message w e =
              pointers (out0
                @ (if ce_context e \<noteq> []
                   then ''\<newline>'' @ str_join ''\<newline>'' (ce_context e) @ ''\<newline>'' else []))"
    using C [of w] unfolding pointers_def has_build_def has_test_def by (simp add: Let_def)
  have C2: "(ce_module e, ce_name e) \<notin> set build_errors \<Longrightarrow>
            long_message (w\<lparr>parse_log_events := p, make_log_context := m, plural := q\<rparr>) e
                 = long_message w e" for p m q
    using C [of w] C [of "w\<lparr>parse_log_events := p, make_log_context := m, plural := q\<rparr>"]
    by (simp add: Let_def)
  from W B C1 C2 show ?thesis by blast
qed

theorem child_error_rendering_witness:
  "(''spack.util.executable'', ''ProcessError'') \<in> set build_errors
   \<and> long_message example_log_world
        (ChildError ''ProcessError: make failed'' ''spack.util.executable'' ''ProcessError''
           ''Traceback'' [''package.py:10, in install:'']
           (Some ''/stage/spack-build-out.txt'') None :: unit child_error)
     = ''\<newline>1 error found in build log:\<newline>foo.c:3: error: x undeclared\<newline>'' @
       ''See build log for details:\<newline>  /stage/spack-build-out.txt\<newline>''
   \<and> (''builtins'', ''ValueError'') \<notin> set build_errors
   \<and> long_message example_log_world
        (ChildError ''ValueError: bad'' ''builtins'' ''ValueError''
           ''Traceback'' [''package.py:10, in install:'']
           (Some ''/stage/spack-build-out.txt'') None :: unit child_error)
     = ''\<newline>package.py:10, in install:\<newline>\<newline>'' @
       ''See build log for details:\<newline>  /stage/spack-build-out.txt\<newline>''"
  using child_error_rendering [where w = example_log_world and out = "[]"
          and log_type = "''build''" and log = "''/stage/spack-build-out.txt''" and last_n = None
          and e = "ChildError ''ProcessError: make failed'' ''spack.util.executable''
                     ''ProcessError'' ''Traceback'' [''package.py:10, in install:'']
                     (Some ''/stage/spack-build-out.txt'') None :: unit child_error"]
        child_error_rendering [where w = example_log_world and out = "[]"
          and log_type = "''build''" and log = "''/stage/spack-build-out.txt''" and last_n = None
          and e = "ChildError ''ValueError: bad'' ''builtins'' ''ValueError''
                     ''Traceback'' [''package.py:10, in install:'']
                     (Some ''/stage/spack-build-out.txt'') None :: unit child_error"]
  by (simp add: long_message_def write_log_summary_def build_errors_def ChildError_def
        example_log_world_def example_log_exists_def example_parse_log_def
        example_log_context_def example_plural_def truthy_def Let_def)


section \<open>Properties of the dependency graph\<close>

lemma dep_smaller: "(ts, c) \<in> set (spec_deps s) \<Longrightarrow> size c < size s"
proof (cases s)
  case (Spec n p l h ds)
  assume "(ts, c) \<in> set (spec_deps s)"
  then have "(ts, c) \<in> set ds" using Spec by simp
  then have "size c < Suc (size_list (size_prod (\<lambda>_. 0) size) ds)"
    by (induction ds) auto
  then show ?thesis using Spec by simp
qed

lemma reachable_smaller: "reachable dt s d \<Longrightarrow> size d < size s"
  by (induction rule: reachable.induct) (auto dest: dep_smaller)

lemma reachable_via_dep:
  "reachable dt c d \<Longrightarrow> (ts, c) \<in> set (spec_deps s) \<Longrightarrow> follows dt ts \<Longrightarrow> reachable dt s d"
  by (induction rule: reachable.induct) (auto intro: reachable.intros)

text \<open>
  The invariant of the depth-first walk: the visited list only grows; what is yielded is what
  is newly visited; every newly visited node lies below the start and has all the nodes its
  followed edges lead to visited.
\<close>

lemma traverse_invariant:
  "traverse_node ord dt s st = st' \<Longrightarrow>
     set (fst st) \<subseteq> set (fst st') \<and> s \<in> set (fst st') \<and>
     set (snd st') = set (snd st) \<union> (set (fst st') - set (fst st)) \<and>
     (\<forall>m \<in> set (fst st') - set (fst st).
        (m = s \<or> reachable dt s m) \<and>
        (\<forall>e \<in> set (spec_deps m). follows dt (fst e) \<longrightarrow> snd e \<in> set (fst st')))"
  "traverse_edges ord dt es st = st' \<Longrightarrow>
     set (fst st) \<subseteq> set (fst st') \<and>
     (\<forall>e \<in> set es. follows dt (fst e) \<longrightarrow> snd e \<in> set (fst st')) \<and>
     set (snd st') = set (snd st) \<union> (set (fst st') - set (fst st)) \<and>
     (\<forall>m \<in> set (fst st') - set (fst st).
        (\<exists>e \<in> set es. follows dt (fst e) \<and> (m = snd e \<or> reachable dt (snd e) m)) \<and>
        (\<forall>e \<in> set (spec_deps m). follows dt (fst e) \<longrightarrow> snd e \<in> set (fst st')))"
proof (induction ord dt s st and ord dt es st arbitrary: st' and st'
       rule: traverse_node_traverse_edges.induct)
  case (1 ord deptype n p l h ds visited out)
  let ?s = "Spec n p l h ds"
  show ?case
  proof (cases "?s \<in> set visited")
    case True
    with "1.prems" show ?thesis by auto
  next
    case False
    let ?st1 = "(?s # visited, if ord = PreOrder then out @ [?s] else out)"
    obtain v2 o2 where e: "traverse_edges ord deptype ds ?st1 = (v2, o2)"
      by (cases "traverse_edges ord deptype ds ?st1")
    from "1.IH" [OF False e]
    have ih: "set (?s # visited) \<subseteq> set v2"
      "\<forall>e \<in> set ds. follows deptype (fst e) \<longrightarrow> snd e \<in> set v2"
      "set o2 = set (snd ?st1) \<union> (set v2 - set (?s # visited))"
      "\<forall>m \<in> set v2 - set (?s # visited).
        (\<exists>e \<in> set ds. follows deptype (fst e) \<and> (m = snd e \<or> reachable deptype (snd e) m)) \<and>
        (\<forall>e \<in> set (spec_deps m). follows deptype (fst e) \<longrightarrow> snd e \<in> set v2)"
      by simp_all
    have st': "st' = (v2, if ord = PostOrder then o2 @ [?s] else o2)"
      using "1.prems" False e by simp
    have a: "set (fst (visited, out)) \<subseteq> set (fst st')" using ih(1) st' by auto
    have b: "?s \<in> set (fst st')" using ih(1) st' by auto
    have c: "set (snd st') = set (snd (visited, out)) \<union> (set (fst st') - set (fst (visited, out)))"
      using ih(1,3) st' False by (cases ord) auto
    have d: "\<forall>m \<in> set (fst st') - set (fst (visited, out)).
        (m = ?s \<or> reachable deptype ?s m) \<and>
        (\<forall>e \<in> set (spec_deps m). follows deptype (fst e) \<longrightarrow> snd e \<in> set (fst st'))"
    proof
      fix m assume m: "m \<in> set (fst st') - set (fst (visited, out))"
      show "(m = ?s \<or> reachable deptype ?s m) \<and>
        (\<forall>e \<in> set (spec_deps m). follows deptype (fst e) \<longrightarrow> snd e \<in> set (fst st'))"
      proof (cases "m = ?s")
        case True
        then show ?thesis using ih(2) st' by simp
      next
        case False
        with m st' have m': "m \<in> set v2 - set (?s # visited)" by auto
        from ih(4) m' obtain e where e: "e \<in> set ds" "follows deptype (fst e)"
          "m = snd e \<or> reachable deptype (snd e) m" by blast
        have "reachable deptype ?s m"
        proof (cases "m = snd e")
          case True
          then show ?thesis using e(1,2) reachable.direct [of "fst e" "snd e" ?s deptype] by simp
        next
          case False
          with e(3) have "reachable deptype (snd e) m" by simp
          then show ?thesis using e(1,2) reachable_via_dep [of deptype "snd e" m "fst e" ?s] by simp
        qed
        then show ?thesis using ih(4) m' st' by auto
      qed
    qed
    from a b c d show ?thesis by blast
  qed
next
  case (2 ord deptype st)
  then show ?case by auto
next
  case (3 ord deptype ts c es st)
  let ?st1 = "if follows deptype ts then traverse_node ord deptype c st else st"
  have r: "traverse_edges ord deptype es ?st1 = st'" using "3.prems" by simp
  note ih2 = "3.IH"(2) [OF r]
  show ?case
  proof (cases "follows deptype ts")
    case False
    then have "?st1 = st" by simp
    with ih2 False show ?thesis by auto
  next
    case True
    then have st1: "?st1 = traverse_node ord deptype c st" by simp
    note ih1 = "3.IH"(1) [OF True refl]
    have a: "set (fst st) \<subseteq> set (fst st')" using ih1 ih2 st1 by auto
    have b: "\<forall>e \<in> set ((ts, c) # es). follows deptype (fst e) \<longrightarrow> snd e \<in> set (fst st')"
      using ih1 ih2 st1 by auto
    have c: "set (snd st') = set (snd st) \<union> (set (fst st') - set (fst st))"
      using ih1 ih2 st1 by auto
    have d: "\<forall>m \<in> set (fst st') - set (fst st).
        (\<exists>e \<in> set ((ts, c) # es). follows deptype (fst e) \<and>
             (m = snd e \<or> reachable deptype (snd e) m)) \<and>
        (\<forall>e \<in> set (spec_deps m). follows deptype (fst e) \<longrightarrow> snd e \<in> set (fst st'))"
    proof
      fix m assume m: "m \<in> set (fst st') - set (fst st)"
      show "(\<exists>e \<in> set ((ts, c) # es). follows deptype (fst e) \<and>
             (m = snd e \<or> reachable deptype (snd e) m)) \<and>
        (\<forall>e \<in> set (spec_deps m). follows deptype (fst e) \<longrightarrow> snd e \<in> set (fst st'))"
      proof (cases "m \<in> set (fst ?st1)")
        case True
        with m st1 have "m \<in> set (fst (traverse_node ord deptype c st)) - set (fst st)" by simp
        with ih1 have "(m = c \<or> reachable deptype c m) \<and>
          (\<forall>e \<in> set (spec_deps m). follows deptype (fst e) \<longrightarrow>
             snd e \<in> set (fst (traverse_node ord deptype c st)))" by blast
        moreover have "set (fst (traverse_node ord deptype c st)) \<subseteq> set (fst st')"
          using ih2 st1 by simp
        ultimately show ?thesis using \<open>follows deptype ts\<close> by auto
      next
        case False
        with m have "m \<in> set (fst st') - set (fst ?st1)" by simp
        with ih2 show ?thesis by auto
      qed
    qed
    from a b c d show ?thesis by blast
  qed
qed

lemma traverse_reachable:
  "set (traverse ord False dt s) = {d. reachable dt s d}"
proof -
  obtain v o' where r: "traverse_edges ord dt (spec_deps s) ([s], []) = (v, o')"
    by (cases "traverse_edges ord dt (spec_deps s) ([s], [])")
  from traverse_invariant(2) [OF r]
  have inv: "s \<in> set v"
    "\<forall>e \<in> set (spec_deps s). follows dt (fst e) \<longrightarrow> snd e \<in> set v"
    "set o' = set v - {s}"
    "\<forall>m \<in> set v - {s}.
        (\<exists>e \<in> set (spec_deps s). follows dt (fst e) \<and> (m = snd e \<or> reachable dt (snd e) m)) \<and>
        (\<forall>e \<in> set (spec_deps m). follows dt (fst e) \<longrightarrow> snd e \<in> set v)"
    by simp_all
  have closed: "\<forall>e \<in> set (spec_deps m). follows dt (fst e) \<longrightarrow> snd e \<in> set v"
    if "m \<in> set v" for m
    using that inv(2,4) by (cases "m = s") auto
  have sub: "reachable dt a d \<Longrightarrow> a \<in> set v \<Longrightarrow> d \<in> set v" for a d
  proof (induction rule: reachable.induct)
    case (direct ts c a)
    then show ?case using closed [of a] by force
  next
    case (step a m ts c)
    then show ?case using closed [of m] by force
  qed
  have below: "reachable dt s m" if "m \<in> set v - {s}" for m
  proof -
    from inv(4) that obtain e where e: "e \<in> set (spec_deps s)" "follows dt (fst e)"
      "m = snd e \<or> reachable dt (snd e) m" by blast
    show ?thesis
    proof (cases "m = snd e")
      case True
      then show ?thesis using e(1,2) reachable.direct [of "fst e" "snd e" s dt] by simp
    next
      case False
      with e(3) have "reachable dt (snd e) m" by simp
      then show ?thesis using e(1,2) reachable_via_dep [of dt "snd e" m "fst e" s] by simp
    qed
  qed
  have "set o' = {d. reachable dt s d}"
  proof (rule set_eqI)
    fix d
    show "d \<in> set o' \<longleftrightarrow> d \<in> {d. reachable dt s d}"
      using inv(1,3) below [of d] sub [of s d] reachable_smaller [of dt s d] by auto
  qed
  then show ?thesis using r by (simp add: traverse_def)
qed


lemma chain_traverse_gen:
  assumes "follows dt tb" "follows dt tc"
  shows "traverse ord False dt
           (Spec na pa la ha [(tb, Spec nb pb lb hb [(tc, Spec nc pc lc hc [])])]) =
         (if ord = PreOrder
          then [Spec nb pb lb hb [(tc, Spec nc pc lc hc [])], Spec nc pc lc hc []]
          else [Spec nc pc lc hc [], Spec nb pb lb hb [(tc, Spec nc pc lc hc [])]])"
  using assms by (cases ord) (auto simp: traverse_def)

text \<open>
  Post-order: when the nodes visited and not yet yielded are all larger than the node at
  hand (they are the nodes above it), the walk yields every node after the nodes its followed
  edges lead to, and leaves the nodes above as they were.
\<close>

lemma post_order_invariant:
  "traverse_node ord dt s st = st' \<Longrightarrow> ord = PostOrder \<Longrightarrow>
     set (snd st) \<subseteq> set (fst st) \<Longrightarrow>
     (\<forall>v \<in> set (fst st) - set (snd st). size s < size v) \<Longrightarrow>
     (\<forall>pre d post. snd st = pre @ d # post \<longrightarrow>
        (\<forall>e \<in> set (spec_deps d). follows dt (fst e) \<longrightarrow> snd e \<in> set pre)) \<Longrightarrow>
     set (snd st') \<subseteq> set (fst st') \<and> s \<in> set (snd st') \<and>
     set (fst st') - set (snd st') = set (fst st) - set (snd st) \<and>
     (\<forall>pre d post. snd st' = pre @ d # post \<longrightarrow>
        (\<forall>e \<in> set (spec_deps d). follows dt (fst e) \<longrightarrow> snd e \<in> set pre))"
  "traverse_edges ord dt es st = st' \<Longrightarrow> ord = PostOrder \<Longrightarrow>
     set (snd st) \<subseteq> set (fst st) \<Longrightarrow>
     (\<forall>v \<in> set (fst st) - set (snd st). \<forall>e \<in> set es. size (snd e) < size v) \<Longrightarrow>
     (\<forall>pre d post. snd st = pre @ d # post \<longrightarrow>
        (\<forall>e \<in> set (spec_deps d). follows dt (fst e) \<longrightarrow> snd e \<in> set pre)) \<Longrightarrow>
     set (snd st') \<subseteq> set (fst st') \<and>
     (\<forall>e \<in> set es. follows dt (fst e) \<longrightarrow> snd e \<in> set (snd st')) \<and>
     set (fst st') - set (snd st') = set (fst st) - set (snd st) \<and>
     (\<forall>pre d post. snd st' = pre @ d # post \<longrightarrow>
        (\<forall>e \<in> set (spec_deps d). follows dt (fst e) \<longrightarrow> snd e \<in> set pre))"
proof (induction ord dt s st and ord dt es st arbitrary: st' and st'
       rule: traverse_node_traverse_edges.induct)
  case (1 ord deptype n p l h ds visited out)
  let ?s = "Spec n p l h ds"
  note po = \<open>ord = PostOrder\<close>
  have sub: "set out \<subseteq> set visited" using "1.prems"(3) by simp
  have big: "\<forall>v \<in> set visited - set out. size ?s < size v" using "1.prems"(4) by simp
  have ok: "\<forall>pre d post. out = pre @ d # post \<longrightarrow>
        (\<forall>e \<in> set (spec_deps d). follows deptype (fst e) \<longrightarrow> snd e \<in> set pre)"
    using "1.prems"(5) by simp
  show ?case
  proof (cases "?s \<in> set visited")
    case True
    have "?s \<in> set out"
    proof (rule ccontr)
      assume "?s \<notin> set out"
      with True have "?s \<in> set visited - set out" by simp
      with big have "size ?s < size ?s" by blast
      then show False by simp
    qed
    moreover have "st' = (visited, out)" using "1.prems"(1) True by simp
    ultimately show ?thesis using sub ok by simp
  next
    case False
    let ?st1 = "(?s # visited, if ord = PreOrder then out @ [?s] else out)"
    have st1: "?st1 = (?s # visited, out)" using po by simp
    obtain v2 o2 where e: "traverse_edges ord deptype ds ?st1 = (v2, o2)"
      by (cases "traverse_edges ord deptype ds ?st1")
    have p3: "set (snd ?st1) \<subseteq> set (fst ?st1)" using sub po by auto
    have p4: "\<forall>v \<in> set (fst ?st1) - set (snd ?st1). \<forall>e \<in> set ds. size (snd e) < size v"
    proof (intro ballI)
      fix v e assume v: "v \<in> set (fst ?st1) - set (snd ?st1)" and e: "e \<in> set ds"
      have "size (snd e) < size ?s"
        using dep_smaller [of "fst e" "snd e" ?s] e by simp
      moreover have "v = ?s \<or> size ?s < size v" using v big po by auto
      ultimately show "size (snd e) < size v" by auto
    qed
    have p5: "\<forall>pre d post. snd ?st1 = pre @ d # post \<longrightarrow>
        (\<forall>e \<in> set (spec_deps d). follows deptype (fst e) \<longrightarrow> snd e \<in> set pre)"
      using ok po by simp
    from "1.IH" [OF False e po p3 p4 p5]
    have ih: "set o2 \<subseteq> set v2"
      "\<forall>e \<in> set ds. follows deptype (fst e) \<longrightarrow> snd e \<in> set o2"
      "set v2 - set o2 = set (?s # visited) - set out"
      "\<forall>pre d post. o2 = pre @ d # post \<longrightarrow>
        (\<forall>e \<in> set (spec_deps d). follows deptype (fst e) \<longrightarrow> snd e \<in> set pre)"
      using po by simp_all
    have st': "st' = (v2, o2 @ [?s])"
      using "1.prems"(1) False e po by simp
    have sv: "?s \<in> set v2" "?s \<notin> set o2" using ih(3) False sub by auto
    have a: "set (snd st') \<subseteq> set (fst st')" using ih(1) sv st' by auto
    have b: "?s \<in> set (snd st')" using st' by simp
    have c: "set (fst st') - set (snd st') = set (fst (visited, out)) - set (snd (visited, out))"
      using ih(3) st' False sub by auto
    have d: "\<forall>pre d post. snd st' = pre @ d # post \<longrightarrow>
        (\<forall>e \<in> set (spec_deps d). follows deptype (fst e) \<longrightarrow> snd e \<in> set pre)"
    proof (intro allI impI)
      fix pre d post assume eq: "snd st' = pre @ d # post"
      then have eq': "o2 @ [?s] = pre @ d # post" using st' by simp
      show "\<forall>e \<in> set (spec_deps d). follows deptype (fst e) \<longrightarrow> snd e \<in> set pre"
      proof (cases post rule: rev_cases)
        case Nil
        with eq' have "pre = o2" "d = ?s" by simp_all
        then show ?thesis using ih(2) by simp
      next
        case (snoc post' x)
        with eq' have "o2 = pre @ d # post'" by simp
        then show ?thesis using ih(4) by blast
      qed
    qed
    from a b c d show ?thesis by blast
  qed
next
  case (2 ord deptype st)
  then show ?case by simp
next
  case (3 ord deptype ts c es st)
  note po = \<open>ord = PostOrder\<close>
  let ?st1 = "if follows deptype ts then traverse_node ord deptype c st else st"
  have r: "traverse_edges ord deptype es ?st1 = st'" using "3.prems"(1) by simp
  have big: "\<forall>v \<in> set (fst st) - set (snd st). \<forall>e \<in> set ((ts, c) # es). size (snd e) < size v"
    using "3.prems"(4) .
  show ?case
  proof (cases "follows deptype ts")
    case False
    then have st1: "?st1 = st" by simp
    have "\<forall>v \<in> set (fst ?st1) - set (snd ?st1). \<forall>e \<in> set es. size (snd e) < size v"
      using big st1 by simp
    from "3.IH"(2) [OF r po _ this] "3.prems"(3,5) st1 False
    show ?thesis by simp
  next
    case True
    then have st1: "?st1 = traverse_node ord deptype c st" by simp
    have bigc: "\<forall>v \<in> set (fst st) - set (snd st). size c < size v" using big by simp
    from "3.IH"(1) [OF True refl po "3.prems"(3) bigc "3.prems"(5)]
    have ih1: "set (snd ?st1) \<subseteq> set (fst ?st1)" "c \<in> set (snd ?st1)"
      "set (fst ?st1) - set (snd ?st1) = set (fst st) - set (snd st)"
      "\<forall>pre d post. snd ?st1 = pre @ d # post \<longrightarrow>
        (\<forall>e \<in> set (spec_deps d). follows deptype (fst e) \<longrightarrow> snd e \<in> set pre)"
      using st1 by simp_all
    have big1: "\<forall>v \<in> set (fst ?st1) - set (snd ?st1). \<forall>e \<in> set es. size (snd e) < size v"
      using big ih1(3) by simp
    from "3.IH"(2) [OF r po ih1(1) big1 ih1(4)]
    have ih2: "set (snd st') \<subseteq> set (fst st')"
      "\<forall>e \<in> set es. follows deptype (fst e) \<longrightarrow> snd e \<in> set (snd st')"
      "set (fst st') - set (snd st') = set (fst ?st1) - set (snd ?st1)"
      "\<forall>pre d post. snd st' = pre @ d # post \<longrightarrow>
        (\<forall>e \<in> set (spec_deps d). follows deptype (fst e) \<longrightarrow> snd e \<in> set pre)"
      by simp_all
    have grow: "set (snd ?st1) \<subseteq> set (snd st')"
      using traverse_invariant(2) [OF r] ih1(1) ih2(1,3) by auto
    have "c \<in> set (snd st')" using ih1(2) grow by auto
    then show ?thesis using ih2 ih1(3) by simp
  qed
qed

lemma post_order_traverse:
  assumes "traverse PostOrder False dt s = pre @ d # post"
      and "e \<in> set (spec_deps d)" and "follows dt (fst e)"
  shows "snd e \<in> set pre"
proof -
  obtain v o' where r: "traverse_edges PostOrder dt (spec_deps s) ([s], []) = (v, o')"
    by (cases "traverse_edges PostOrder dt (spec_deps s) ([s], [])")
  have "\<forall>v \<in> set (fst ([s], [])) - set (snd ([s], [])). \<forall>e \<in> set (spec_deps s).
          size (snd e) < size v"
    using dep_smaller [of _ _ s] by (auto simp: prod_eq_iff)
  from post_order_invariant(2) [OF r refl _ this]
  have "\<forall>pre d post. o' = pre @ d # post \<longrightarrow>
        (\<forall>e \<in> set (spec_deps d). follows dt (fst e) \<longrightarrow> snd e \<in> set pre)"
    by simp
  moreover have "o' = pre @ d # post" using assms(1) r by (simp add: traverse_def)
  ultimately show ?thesis using assms(2,3) by blast
qed


section \<open>Properties of the synthesised directories\<close>

lemma set_dedupe_from: "set (dedupe_from seen xs) = set xs - set seen"
  by (induction seen xs rule: dedupe_from.induct) auto

lemma distinct_dedupe_from: "distinct (dedupe_from seen xs)"
  by (induction seen xs rule: dedupe_from.induct) (auto simp: set_dedupe_from)

lemma first_index_Cons:
  "first_index (x # xs) a = (if a = x then 0 else Suc (first_index xs a))"
  by (auto simp: first_index_def)

lemma first_seen_dedupe_from:
  "sorted_wrt (\<lambda>a b. first_index xs a < first_index xs b) (dedupe_from seen xs)"
proof (induction seen xs rule: dedupe_from.induct)
  case (1 seen)
  then show ?case by simp
next
  case (2 seen x xs)
  show ?case
  proof (cases "x \<in> set seen")
    case True
    have "sorted_wrt (\<lambda>a b. first_index (x # xs) a < first_index (x # xs) b)
            (dedupe_from seen xs)"
    proof (rule sorted_wrt_mono_rel [OF _ "2.IH"(1) [OF True]])
      fix a b
      assume "a \<in> set (dedupe_from seen xs)" "b \<in> set (dedupe_from seen xs)"
        "first_index xs a < first_index xs b"
      then show "first_index (x # xs) a < first_index (x # xs) b"
        using True by (auto simp: set_dedupe_from first_index_Cons)
    qed
    then show ?thesis using True by simp
  next
    case False
    have "sorted_wrt (\<lambda>a b. first_index (x # xs) a < first_index (x # xs) b)
            (dedupe_from (x # seen) xs)"
    proof (rule sorted_wrt_mono_rel [OF _ "2.IH"(2) [OF False]])
      fix a b
      assume "a \<in> set (dedupe_from (x # seen) xs)" "b \<in> set (dedupe_from (x # seen) xs)"
        "first_index xs a < first_index xs b"
      then show "first_index (x # xs) a < first_index (x # xs) b"
        by (auto simp: set_dedupe_from first_index_Cons)
    qed
    moreover have "\<forall>b \<in> set (dedupe_from (x # seen) xs).
                     first_index (x # xs) x < first_index (x # xs) b"
      by (auto simp: set_dedupe_from first_index_Cons)
    ultimately show ?thesis using False by simp
  qed
qed

lemma first_index_filter:
  "P a \<Longrightarrow> P b \<Longrightarrow> first_index (filter P xs) a < first_index (filter P xs) b
   \<Longrightarrow> first_index xs a < first_index xs b"
  by (induction xs) (auto simp: first_index_Cons split: if_splits)

text \<open>
  What filtering and de-duplicating a list of candidates gives: no element twice, no system
  path, every other candidate, each at the place where it is first seen.
\<close>

lemma dedupe_filter_system_paths:
  fixes sys :: "string \<Rightarrow> bool"
  defines "r \<equiv> (\<lambda>xs. dedupe (filter_system_paths sys xs))"
  shows "distinct (r xs)"
    and "set (r xs) = {p \<in> set xs. \<not> sys p}"
    and "sorted_wrt (\<lambda>a b. first_index xs a < first_index xs b) (r xs)"
proof -
  show "distinct (r xs)" by (simp add: r_def dedupe_def distinct_dedupe_from)
  show s: "set (r xs) = {p \<in> set xs. \<not> sys p}"
    by (auto simp: r_def dedupe_def set_dedupe_from filter_system_paths_def)
  show "sorted_wrt (\<lambda>a b. first_index xs a < first_index xs b) (r xs)"
  proof (rule sorted_wrt_mono_rel)
    show "sorted_wrt (\<lambda>a b. first_index (filter_system_paths sys xs) a
                          < first_index (filter_system_paths sys xs) b) (r xs)"
      unfolding r_def dedupe_def by (rule first_seen_dedupe_from)
  next
    fix a b
    assume "a \<in> set (r xs)" "b \<in> set (r xs)"
      "first_index (filter_system_paths sys xs) a < first_index (filter_system_paths sys xs) b"
    then show "first_index xs a < first_index xs b"
      using s first_index_filter [of "\<lambda>p. \<not> sys p" a b xs]
      by (simp add: filter_system_paths_def)
  qed
qed

lemma link_deps_loop_eq:
  "link_deps_loop w rp deps (l, i, r) =
     (l @ concat (map (dep_link_dirs w)
                    (filter (\<lambda>d. \<not> is_system_path w (spec_prefix d)) deps)),
      i @ concat (map (\<lambda>d. case headers_directories d of None \<Rightarrow> [] | Some hs \<Rightarrow> hs)
                    (filter (\<lambda>d. \<not> is_system_path w (spec_prefix d)) deps)),
      r @ concat (map (dep_link_dirs w)
                    (filter (\<lambda>d. \<not> is_system_path w (spec_prefix d) \<and> d \<in> set rp) deps)))"
  by (induction deps arbitrary: l i r) auto

lemma path_join_lib_neq: "path_join p ''lib'' \<noteq> path_join p ''lib64''"
  by (simp add: path_join_def)

lemma rpath_candidates:
  "snd (snd (candidate_dirs w pkg)) =
     [path_join (spec_prefix (pkg_spec pkg)) ''lib'',
      path_join (spec_prefix (pkg_spec pkg)) ''lib64'']
     @ concat (map (dep_link_dirs w)
         (filter (\<lambda>d. \<not> is_system_path w (spec_prefix d) \<and> d \<in> set (get_rpath_deps pkg))
            (set_iteration w (traverse PreOrder False [LinkDep] (pkg_spec pkg)))))"
  by (simp add: candidate_dirs_def Let_def link_deps_loop_eq)

text \<open>
  Claim C6, as amended. Whatever exists on disk, the RPATH directory list starts with those of
  the \<^verbatim>\<open>lib\<close> and \<^verbatim>\<open>lib64\<close> directories of the package's own prefix that are not
  system paths, in this order, and neither occurs again among the directories that follow,
  which the dependencies contribute. The list is filtered as a whole, so an own directory that
  is a system path is left out.
\<close>

theorem own_rpaths_first:
  fixes w :: build_world and pkg :: package
  defines "lib \<equiv> path_join (spec_prefix (pkg_spec pkg)) ''lib''"
      and "lib64 \<equiv> path_join (spec_prefix (pkg_spec pkg)) ''lib64''"
  shows "\<exists>rest. rpath_dirs w pkg = filter (\<lambda>p. \<not> is_system_path w p) [lib, lib64] @ rest
               \<and> lib \<notin> set rest \<and> lib64 \<notin> set rest"
proof -
  have ne: "lib \<noteq> lib64" unfolding lib_def lib64_def by (rule path_join_lib_neq)
  have d: "distinct (rpath_dirs w pkg)"
    by (simp add: rpath_dirs_def dedupe_filter_system_paths(1))
  have ex: "\<exists>rest. dedupe (filter Q (lib # lib64 # ys)) = filter Q [lib, lib64] @ rest"
    for Q and ys :: "string list"
    using ne by (cases "Q lib"; cases "Q lib64") (auto simp: dedupe_def)
  have "rpath_dirs w pkg =
          dedupe (filter (\<lambda>p. \<not> is_system_path w p)
                    (lib # lib64 # concat (map (dep_link_dirs w)
                       (filter (\<lambda>d. \<not> is_system_path w (spec_prefix d) \<and>
                                    d \<in> set (get_rpath_deps pkg))
                          (set_iteration w
                             (traverse PreOrder False [LinkDep] (pkg_spec pkg)))))))"
    by (simp add: rpath_dirs_def rpath_candidates filter_system_paths_def lib_def lib64_def)
  with ex obtain rest
    where r: "rpath_dirs w pkg = filter (\<lambda>p. \<not> is_system_path w p) [lib, lib64] @ rest"
    by metis
  have s: "set (rpath_dirs w pkg) \<subseteq> {p. \<not> is_system_path w p}"
    by (auto simp: rpath_dirs_def dedupe_filter_system_paths(2))
  have "lib \<notin> set rest \<and> lib64 \<notin> set rest"
    using d s unfolding r by (auto split: if_splits)
  with r show ?thesis by blast
qed


theorem own_rpaths_first_witness:
  "\<not> isdir example_build_world ''/opt/app/lib''
   \<and> \<not> isdir example_build_world ''/opt/app/lib64''
   \<and> path_join (spec_prefix (pkg_spec (example_package True))) ''lib'' = ''/opt/app/lib''
   \<and> path_join (spec_prefix (pkg_spec (example_package True))) ''lib64'' = ''/opt/app/lib64''
   \<and> rpath_dirs example_build_world (example_package True) =
       [''/opt/app/lib'', ''/opt/app/lib64'', ''/opt/libpng/lib'', ''/opt/zlib/lib'']"
proof -
  have b: "\<not> isdir example_build_world ''/opt/app/lib''"
    "\<not> isdir example_build_world ''/opt/app/lib64''"
    by code_simp+
  have p: "path_join (spec_prefix (pkg_spec (example_package True))) ''lib'' = ''/opt/app/lib''"
    "path_join (spec_prefix (pkg_spec (example_package True))) ''lib64'' = ''/opt/app/lib64''"
    by code_simp+
  have c: "rpath_dirs example_build_world (example_package True) =
       [''/opt/app/lib'', ''/opt/app/lib64'', ''/opt/libpng/lib'', ''/opt/zlib/lib'']"
    by code_simp
  from own_rpaths_first [of example_build_world "example_package True"] b p c
  show ?thesis by blast
qed


text \<open>
  The claim as first stated fails for a package whose prefix is \<^verbatim>\<open>/usr\<close> when
  \<^verbatim>\<open>/usr/lib\<close> and \<^verbatim>\<open>/usr/lib64\<close> are system paths: neither is among its RPATH
  directories.
\<close>

theorem own_rpaths_filtered_under_usr:
  "path_join (spec_prefix (pkg_spec example_usr_package)) ''lib'' = ''/usr/lib''
   \<and> path_join (spec_prefix (pkg_spec example_usr_package)) ''lib64'' = ''/usr/lib64''
   \<and> rpath_dirs example_build_world_system_dirs example_usr_package =
       [''/opt/libpng/lib'', ''/opt/zlib/lib'']
   \<and> ''/usr/lib'' \<notin> set (rpath_dirs example_build_world_system_dirs example_usr_package)
   \<and> ''/usr/lib64'' \<notin> set (rpath_dirs example_build_world_system_dirs example_usr_package)"
  by code_simp


text \<open>
  Claim C5. The link, include and RPATH directory lists that
  \<^verbatim>\<open>set_build_environment_variables\<close> writes hold no directory twice, hold exactly the
  candidates that are not system paths, and hold them in the order in which they are first seen
  among the candidates; so no system path, such as \<^verbatim>\<open>/\<close>, \<^verbatim>\<open>/usr\<close> or
  \<^verbatim>\<open>/usr/local\<close>, is in any of them, nor among the prefixes written to
  \<^verbatim>\<open>CMAKE_PREFIX_PATH\<close>. The four variables are the first the function adds to the
  ledger.
\<close>

theorem synthesized_dirs:
  fixes w :: build_world and pkg :: package
  defines "cand \<equiv> candidate_dirs w pkg"
  shows "distinct (link_dirs w pkg) \<and> distinct (include_dirs w pkg) \<and> distinct (rpath_dirs w pkg)
       \<and> sorted_wrt (\<lambda>a b. first_index (fst cand) a < first_index (fst cand) b) (link_dirs w pkg)
       \<and> sorted_wrt (\<lambda>a b. first_index (fst (snd cand)) a < first_index (fst (snd cand)) b)
           (include_dirs w pkg)
       \<and> sorted_wrt (\<lambda>a b. first_index (snd (snd cand)) a < first_index (snd (snd cand)) b)
           (rpath_dirs w pkg)
       \<and> set (link_dirs w pkg) = {p \<in> set (fst cand). \<not> is_system_path w p}
       \<and> set (include_dirs w pkg) = {p \<in> set (fst (snd cand)). \<not> is_system_path w p}
       \<and> set (rpath_dirs w pkg) = {p \<in> set (snd (snd cand)). \<not> is_system_path w p}
       \<and> (\<forall>p. is_system_path w p \<longrightarrow>
             p \<notin> set (link_dirs w pkg) \<and> p \<notin> set (include_dirs w pkg) \<and>
             p \<notin> set (rpath_dirs w pkg) \<and> p \<notin> set (build_link_prefixes w pkg))
       \<and> (\<forall>env dirty ledger.
             set_build_environment_variables w pkg env dirty = Inr ledger \<longrightarrow>
             (\<exists>rest. ledger =
                env @ [SetEnv ''SPACK_LINK_DIRS'' (str_join '':'' (link_dirs w pkg)),
                       SetEnv ''SPACK_INCLUDE_DIRS'' (str_join '':'' (include_dirs w pkg)),
                       SetEnv ''SPACK_RPATH_DIRS'' (str_join '':'' (rpath_dirs w pkg)),
                       SetPath ''CMAKE_PREFIX_PATH'' (build_link_prefixes w pkg)] @ rest))"
proof -
  note d = dedupe_filter_system_paths [where sys = "is_system_path w"]
  have 1: "distinct (link_dirs w pkg) \<and> distinct (include_dirs w pkg) \<and> distinct (rpath_dirs w pkg)"
    by (simp add: link_dirs_def include_dirs_def rpath_dirs_def d(1))
  have 2: "sorted_wrt (\<lambda>a b. first_index (fst cand) a < first_index (fst cand) b) (link_dirs w pkg)"
    "sorted_wrt (\<lambda>a b. first_index (fst (snd cand)) a < first_index (fst (snd cand)) b)
           (include_dirs w pkg)"
    "sorted_wrt (\<lambda>a b. first_index (snd (snd cand)) a < first_index (snd (snd cand)) b)
           (rpath_dirs w pkg)"
    unfolding link_dirs_def include_dirs_def rpath_dirs_def cand_def by (rule d(3))+
  have 3: "set (link_dirs w pkg) = {p \<in> set (fst cand). \<not> is_system_path w p}"
    "set (include_dirs w pkg) = {p \<in> set (fst (snd cand)). \<not> is_system_path w p}"
    "set (rpath_dirs w pkg) = {p \<in> set (snd (snd cand)). \<not> is_system_path w p}"
    unfolding link_dirs_def include_dirs_def rpath_dirs_def cand_def by (rule d(2))+
  have 4: "\<forall>p. is_system_path w p \<longrightarrow>
             p \<notin> set (link_dirs w pkg) \<and> p \<notin> set (include_dirs w pkg) \<and>
             p \<notin> set (rpath_dirs w pkg) \<and> p \<notin> set (build_link_prefixes w pkg)"
    using 3 by (auto simp: build_link_prefixes_def filter_system_paths_def)
  have 5: "\<forall>env dirty ledger.
             set_build_environment_variables w pkg env dirty = Inr ledger \<longrightarrow>
             (\<exists>rest. ledger =
                env @ [SetEnv ''SPACK_LINK_DIRS'' (str_join '':'' (link_dirs w pkg)),
                       SetEnv ''SPACK_INCLUDE_DIRS'' (str_join '':'' (include_dirs w pkg)),
                       SetEnv ''SPACK_RPATH_DIRS'' (str_join '':'' (rpath_dirs w pkg)),
                       SetPath ''CMAKE_PREFIX_PATH'' (build_link_prefixes w pkg)] @ rest)"
    by (auto simp: set_build_environment_variables_def Let_def split: if_splits)
  from 1 2 3 4 5 show ?thesis by blast
qed


theorem synthesized_dirs_witness:
  "fst (candidate_dirs example_build_world (example_package False)) =
     [''/opt/libpng/lib'', ''/usr/local'', ''/opt/libpng/lib'', ''/opt/zlib/lib'']
   \<and> link_dirs example_build_world (example_package False) =
     [''/opt/libpng/lib'', ''/opt/zlib/lib'']
   \<and> fst (snd (candidate_dirs example_build_world (example_package False))) =
     [''/opt/libpng/include'', ''/usr'', ''/opt/zlib/include'', ''/opt/zlib/include'']
   \<and> include_dirs example_build_world (example_package False) =
     [''/opt/libpng/include'', ''/opt/zlib/include'']
   \<and> rpath_dirs example_build_world (example_package False) =
     [''/opt/app/lib'', ''/opt/app/lib64'', ''/opt/libpng/lib'']
   \<and> is_system_path example_build_world ''/usr''
   \<and> ''/usr'' \<notin> set (include_dirs example_build_world (example_package False))
   \<and> is_system_path example_build_world ''/usr/local''
   \<and> ''/usr/local'' \<notin> set (link_dirs example_build_world (example_package False))
   \<and> set_build_environment_variables example_build_world (example_package False) [] False =
     Inr [SetEnv ''SPACK_LINK_DIRS'' ''/opt/libpng/lib:/opt/zlib/lib'',
          SetEnv ''SPACK_INCLUDE_DIRS'' ''/opt/libpng/include:/opt/zlib/include'',
          SetEnv ''SPACK_RPATH_DIRS'' ''/opt/app/lib:/opt/app/lib64:/opt/libpng/lib'',
          SetPath ''CMAKE_PREFIX_PATH'' [''/opt/libpng'', ''/opt/zlib''],
          PrependPath ''PATH'' ''/spack/env'',
          PrependPath ''PATH'' ''/spack/env/gcc'',
          SetPath ''SPACK_ENV_PATH'' [''/spack/env'', ''/spack/env/gcc''],
          SetEnv ''SPACK_SHORT_SPEC'' ''app@1.0'',
          SetEnv ''SPACK_DEBUG_LOG_ID'' ''app-abcdefg'',
          SetEnv ''SPACK_DEBUG_LOG_DIR'' ''/home/user'']"
proof -
  have a: "fst (candidate_dirs example_build_world (example_package False)) =
     [''/opt/libpng/lib'', ''/usr/local'', ''/opt/libpng/lib'', ''/opt/zlib/lib'']"
    by code_simp
  have b: "link_dirs example_build_world (example_package False) =
     [''/opt/libpng/lib'', ''/opt/zlib/lib'']"
    by code_simp
  have c: "fst (snd (candidate_dirs example_build_world (example_package False))) =
     [''/opt/libpng/include'', ''/usr'', ''/opt/zlib/include'', ''/opt/zlib/include'']"
    by code_simp
  have d: "include_dirs example_build_world (example_package False) =
     [''/opt/libpng/include'', ''/opt/zlib/include'']"
    by code_simp
  have e: "rpath_dirs example_build_world (example_package False) =
     [''/opt/app/lib'', ''/opt/app/lib64'', ''/opt/libpng/lib'']"
    by code_simp
  have f: "is_system_path example_build_world ''/usr''"
    "is_system_path example_build_world ''/usr/local''"
    by code_simp+
  have g: "set_build_environment_variables example_build_world (example_package False) [] False =
     Inr [SetEnv ''SPACK_LINK_DIRS'' ''/opt/libpng/lib:/opt/zlib/lib'',
          SetEnv ''SPACK_INCLUDE_DIRS'' ''/opt/libpng/include:/opt/zlib/include'',
          SetEnv ''SPACK_RPATH_DIRS'' ''/opt/app/lib:/opt/app/lib64:/opt/libpng/lib'',
          SetPath ''CMAKE_PREFIX_PATH'' [''/opt/libpng'', ''/opt/zlib''],
          PrependPath ''PATH'' ''/spack/env'',
          PrependPath ''PATH'' ''/spack/env/gcc'',
          SetPath ''SPACK_ENV_PATH'' [''/spack/env'', ''/spack/env/gcc''],
          SetEnv ''SPACK_SHORT_SPEC'' ''app@1.0'',
          SetEnv ''SPACK_DEBUG_LOG_ID'' ''app-abcdefg'',
          SetEnv ''SPACK_DEBUG_LOG_DIR'' ''/home/user'']"
    by code_simp
  from synthesized_dirs [of example_build_world "example_package False"] f
  have h: "''/usr'' \<notin> set (include_dirs example_build_world (example_package False))"
    "''/usr/local'' \<notin> set (link_dirs example_build_world (example_package False))"
    by blast+
  from a b c d e f g h show ?thesis by blast
qed


lemma dependencies_link:
  "dependencies [LinkDep] s = map snd (filter (\<lambda>e. LinkDep \<in> set (fst e)) (spec_deps s))"
  by (simp add: dependencies_def follows_def list_ex_iff)

lemma chain_traverse:
  assumes "LinkDep \<in> set tb" "LinkDep \<in> set tc"
  shows "traverse ord False [LinkDep]
           (Spec na pa la ha [(tb, Spec nb pb lb hb [(tc, Spec nc pc lc hc [])])]) =
         (if ord = PreOrder
          then [Spec nb pb lb hb [(tc, Spec nc pc lc hc [])], Spec nc pc lc hc []]
          else [Spec nc pc lc hc [], Spec nb pb lb hb [(tc, Spec nc pc lc hc [])]])"
  using assms by (cases ord) (auto simp: traverse_def follows_def list_ex_iff)

lemma rpath_dirs_member:
  "p \<in> set (rpath_dirs w pkg) \<longleftrightarrow>
     \<not> is_system_path w p \<and>
     (p = path_join (spec_prefix (pkg_spec pkg)) ''lib'' \<or>
      p = path_join (spec_prefix (pkg_spec pkg)) ''lib64'' \<or>
      (\<exists>d \<in> set (set_iteration w (traverse PreOrder False [LinkDep] (pkg_spec pkg))).
         \<not> is_system_path w (spec_prefix d) \<and> d \<in> set (get_rpath_deps pkg) \<and>
         p \<in> set (dep_link_dirs w d)))"
  unfolding rpath_dirs_def dedupe_filter_system_paths(2) rpath_candidates by auto

text \<open>
  Claim C4, as amended. \<^verbatim>\<open>get_rpath_deps\<close> returns the nodes reachable along link edges
  when the package has transitive RPATHs, and the direct link dependencies otherwise. For a
  chain \<open>A \<rightarrow> B \<rightarrow> C\<close> of link edges these are \<open>B\<close> and \<open>C\<close>, or \<open>B\<close> alone; and when
  the \<^verbatim>\<open>lib\<close> directory of \<open>C\<close> exists on disk, neither it nor the prefix of \<open>C\<close>
  is a system path, and it is not already a directory of \<open>A\<close> or of \<open>B\<close>, it is among
  the RPATH directories of \<open>A\<close> exactly when \<open>A\<close> has transitive RPATHs.
\<close>

theorem rpath_deps_policy:
  fixes pkg :: package and w :: build_world
    and na pa nb pb nc pc :: string and la ha lb hb lc hc :: "string list option"
    and tb tc :: "deptype list"
  defines "C \<equiv> Spec nc pc lc hc []"
  defines "B \<equiv> Spec nb pb lb hb [(tc, C)]"
  defines "A \<equiv> Spec na pa la ha [(tb, B)]"
  shows "(transitive_rpaths pkg \<longrightarrow>
            set (get_rpath_deps pkg) = {d. reachable [LinkDep] (pkg_spec pkg) d})
       \<and> (\<not> transitive_rpaths pkg \<longrightarrow>
            get_rpath_deps pkg =
              map snd (filter (\<lambda>e. LinkDep \<in> set (fst e)) (spec_deps (pkg_spec pkg))))
       \<and> (pkg_spec pkg = A \<and> LinkDep \<in> set tb \<and> LinkDep \<in> set tc \<and>
          set (set_iteration w [B, C]) = {B, C} \<and>
          \<not> is_system_path w pc \<and> isdir w (path_join pc ''lib'') \<and>
          \<not> is_system_path w (path_join pc ''lib'') \<and>
          path_join pc ''lib'' \<notin> set (dep_link_dirs w B) \<and>
          path_join pc ''lib'' \<noteq> path_join pa ''lib'' \<and>
          path_join pc ''lib'' \<noteq> path_join pa ''lib64'' \<longrightarrow>
            get_rpath_deps pkg = (if transitive_rpaths pkg then [B, C] else [B]) \<and>
            (path_join pc ''lib'' \<in> set (rpath_dirs w pkg) \<longleftrightarrow> transitive_rpaths pkg))"
proof -
  have 1: "transitive_rpaths pkg \<Longrightarrow>
            set (get_rpath_deps pkg) = {d. reachable [LinkDep] (pkg_spec pkg) d}"
    by (simp add: get_rpath_deps_def traverse_reachable)
  have 2: "\<not> transitive_rpaths pkg \<Longrightarrow>
            get_rpath_deps pkg =
              map snd (filter (\<lambda>e. LinkDep \<in> set (fst e)) (spec_deps (pkg_spec pkg)))"
    by (simp add: get_rpath_deps_def dependencies_link)
  have 3: "get_rpath_deps pkg = (if transitive_rpaths pkg then [B, C] else [B]) \<and>
           (path_join pc ''lib'' \<in> set (rpath_dirs w pkg) \<longleftrightarrow> transitive_rpaths pkg)"
    if h: "pkg_spec pkg = A" "LinkDep \<in> set tb" "LinkDep \<in> set tc"
      "set (set_iteration w [B, C]) = {B, C}"
      "\<not> is_system_path w pc" "isdir w (path_join pc ''lib'')"
      "\<not> is_system_path w (path_join pc ''lib'')"
      "path_join pc ''lib'' \<notin> set (dep_link_dirs w B)"
      "path_join pc ''lib'' \<noteq> path_join pa ''lib''"
      "path_join pc ''lib'' \<noteq> path_join pa ''lib64''"
  proof -
    have tr: "traverse PreOrder False [LinkDep] A = [B, C]"
      unfolding A_def B_def C_def using chain_traverse [OF h(2,3), of PreOrder] by simp
    have deps: "get_rpath_deps pkg = (if transitive_rpaths pkg then [B, C] else [B])"
      using h(1,2) tr by (simp add: get_rpath_deps_def dependencies_link) (simp add: A_def)
    have cl: "path_join pc ''lib'' \<in> set (dep_link_dirs w C)"
      using h(6) by (simp add: dep_link_dirs_def C_def)
    have bc: "B \<noteq> C" by (simp add: B_def C_def)
    have pa: "spec_prefix A = pa" "spec_prefix C = pc" by (simp_all add: A_def C_def)
    have "path_join pc ''lib'' \<in> set (rpath_dirs w pkg) \<longleftrightarrow> transitive_rpaths pkg"
      unfolding rpath_dirs_member h(1) tr h(4) deps pa
      using h(5,7,8,9,10) cl bc pa(2) by auto
    with deps show ?thesis by simp
  qed
  from 1 2 3 show ?thesis by blast
qed


theorem rpath_deps_policy_witness:
  "transitive_rpaths (example_package True)
   \<and> get_rpath_deps (example_package True) = [example_libpng, example_zlib]
   \<and> reachable [LinkDep] example_app example_zlib
   \<and> ''/opt/zlib/lib'' \<in> set (rpath_dirs example_build_world (example_package True))
   \<and> \<not> transitive_rpaths (example_package False)
   \<and> get_rpath_deps (example_package False) = [example_libpng]
   \<and> ''/opt/zlib/lib'' \<notin> set (rpath_dirs example_build_world (example_package False))"
proof -
  let ?C = "Spec ''zlib'' ''/opt/zlib'' None (Some [''/opt/zlib/include'']) []"
  let ?B = "Spec ''libpng'' ''/opt/libpng'' (Some [''/opt/libpng/lib'', ''/usr/local''])
              (Some [''/opt/libpng/include'', ''/usr'', ''/opt/zlib/include''])
              [([BuildDep, LinkDep], ?C)]"
  let ?A = "Spec ''app'' ''/opt/app'' None None [([LinkDep], ?B)]"
  have names: "example_zlib = ?C" "example_libpng = ?B" "example_app = ?A"
    by (simp_all add: example_zlib_def example_libpng_def example_app_def)
  have t: "transitive_rpaths (example_package True)" "\<not> transitive_rpaths (example_package False)"
    by (simp_all add: example_package_def)
  have hyps: "pkg_spec (example_package tr) = ?A \<and> LinkDep \<in> set [LinkDep] \<and>
          LinkDep \<in> set [BuildDep, LinkDep] \<and>
          set (set_iteration example_build_world [?B, ?C]) = {?B, ?C} \<and>
          \<not> is_system_path example_build_world ''/opt/zlib'' \<and>
          isdir example_build_world (path_join ''/opt/zlib'' ''lib'') \<and>
          \<not> is_system_path example_build_world (path_join ''/opt/zlib'' ''lib'') \<and>
          path_join ''/opt/zlib'' ''lib'' \<notin> set (dep_link_dirs example_build_world ?B) \<and>
          path_join ''/opt/zlib'' ''lib'' \<noteq> path_join ''/opt/app'' ''lib'' \<and>
          path_join ''/opt/zlib'' ''lib'' \<noteq> path_join ''/opt/app'' ''lib64''" for tr
    by (simp add: example_package_def names example_build_world_def example_isdir_def
          example_is_system_path_def dedupe_def dep_link_dirs_def path_join_def endswith_def)
  have p: "path_join ''/opt/zlib'' ''lib'' = ''/opt/zlib/lib''"
    by (simp add: path_join_def endswith_def)
  note th = rpath_deps_policy [where w = example_build_world
          and na = "''app''" and pa = "''/opt/app''" and la = None and ha = None
          and tb = "[LinkDep]" and nb = "''libpng''" and pb = "''/opt/libpng''"
          and lb = "Some [''/opt/libpng/lib'', ''/usr/local'']"
          and hb = "Some [''/opt/libpng/include'', ''/usr'', ''/opt/zlib/include'']"
          and tc = "[BuildDep, LinkDep]" and nc = "''zlib''" and pc = "''/opt/zlib''"
          and lc = None and hc = "Some [''/opt/zlib/include'']"]
  have x: "set (get_rpath_deps (example_package True))
       = {d. reachable [LinkDep] (pkg_spec (example_package True)) d}"
    using th [where pkg = "example_package True"] t(1) by blast
  have zt: "get_rpath_deps (example_package True) =
        (if transitive_rpaths (example_package True) then [?B, ?C] else [?B]) \<and>
      (path_join ''/opt/zlib'' ''lib'' \<in> set (rpath_dirs example_build_world (example_package True))
         \<longleftrightarrow> transitive_rpaths (example_package True))"
    using th [where pkg = "example_package True"] hyps [of True] by blast
  have zf: "get_rpath_deps (example_package False) =
        (if transitive_rpaths (example_package False) then [?B, ?C] else [?B]) \<and>
      (path_join ''/opt/zlib'' ''lib'' \<in> set (rpath_dirs example_build_world (example_package False))
         \<longleftrightarrow> transitive_rpaths (example_package False))"
    using th [where pkg = "example_package False"] hyps [of False] by blast
  have a: "get_rpath_deps (example_package True) = [?B, ?C]"
    "path_join ''/opt/zlib'' ''lib'' \<in> set (rpath_dirs example_build_world (example_package True))"
    using zt t(1) by simp_all
  have b: "get_rpath_deps (example_package False) = [?B]"
    "path_join ''/opt/zlib'' ''lib'' \<notin> set (rpath_dirs example_build_world (example_package False))"
    using zf t(2) by simp_all
  have "?C \<in> set (get_rpath_deps (example_package True))" using a(1) by simp
  then have "reachable [LinkDep] (pkg_spec (example_package True)) ?C" using x by blast
  then have r: "reachable [LinkDep] example_app example_zlib"
    by (simp add: names example_package_def)
  from a(1,2) b r t show ?thesis by (simp add: p names)
qed


text \<open>
  The claim as first stated fails for a chain whose last package provides headers only: with
  transitive RPATHs, \<^verbatim>\<open>zlib\<close> is among the RPATH dependencies, but its \<^verbatim>\<open>lib\<close>
  directory does not exist on disk and is not among the RPATH directories.
\<close>

theorem rpath_chain_header_only:
  "transitive_rpaths (example_package True)
   \<and> get_rpath_deps (example_package True) = [example_libpng, example_zlib]
   \<and> path_join (spec_prefix example_zlib) ''lib'' = ''/opt/zlib/lib''
   \<and> \<not> isdir example_build_world_header_only ''/opt/zlib/lib''
   \<and> rpath_dirs example_build_world_header_only (example_package True) =
       [''/opt/app/lib'', ''/opt/app/lib64'', ''/opt/libpng/lib'']
   \<and> ''/opt/zlib/lib'' \<notin> set (rpath_dirs example_build_world_header_only (example_package True))"
  by code_simp


section \<open>Properties of the composition of dependency environments\<close>

lemma fold_dependency_step:
  "fold (dependency_step w method spec) ds st =
     \<lparr> cs_env = fold (\<lambda>d. dependent_environment_hook w method d spec) ds (cs_env st),
       cs_module = fold (\<lambda>d. setup_dependent_package w d spec) ds (cs_module st),
       cs_trace = cs_trace st @
         concat (map (\<lambda>d. [SetModuleVariables d, SetupDependentPackage d spec,
                            EnvironmentHook method d spec]) ds) \<rparr>"
  by (induction ds arbitrary: st) (simp_all add: dependency_step_def)

lemma fold_appending_hook:
  "(\<And>d env. hook d env = env @ contrib d) \<Longrightarrow>
   fold hook ds env = env @ concat (map contrib ds)"
  by (induction ds arbitrary: env) simp_all

lemma root_not_traversed: "s \<notin> set (traverse ord False dt s)"
  using reachable_smaller [of dt s s] by (auto simp: traverse_reachable)

text \<open>
  Claim C2. The context selects the edge types and the hook: build, link and test edges with
  \<^verbatim>\<open>setup_dependent_build_environment\<close> for \<^verbatim>\<open>build\<close>; link and run edges with
  \<^verbatim>\<open>setup_dependent_run_environment\<close> for \<^verbatim>\<open>run\<close>; link, run and test edges with
  the same hook for \<^verbatim>\<open>test\<close>. The dependencies are visited in the order of the post-order
  walk without the root: exactly the nodes reachable along such edges, each after the nodes
  its own such edges lead to. For each one its module variables are set, then its
  \<^verbatim>\<open>setup_dependent_package\<close> acts on the module scope of the root, then its hook acts
  on the ledger; hooks that append leave their contributions in the order of the walk. For a
  chain \<open>A \<rightarrow> B \<rightarrow> C\<close> where \<open>B\<close> and \<open>C\<close> both set a variable, \<open>C\<close> is visited
  first and the applied ledger holds the value of \<open>B\<close>.
\<close>

theorem dependency_composition:
  fixes w :: "'m recipe_world" and module :: 'm and spec :: spec
    and na pa nb pb nc pc x vb vc :: string and la ha lb hb lc hc :: "string list option"
    and tb tc :: "deptype list" and base_env :: "string \<rightharpoonup> string"
  defines "deps \<equiv> (\<lambda>deptype. traverse PostOrder False deptype spec)"
  defines "C \<equiv> Spec nc pc lc hc []"
  defines "B \<equiv> Spec nb pb lb hb [(tc, C)]"
  defines "A \<equiv> Spec na pa la ha [(tb, B)]"
  shows "deptype_and_method ''build'' =
           Some ([BuildDep, LinkDep, TestDep], ''setup_dependent_build_environment'')
       \<and> deptype_and_method ''run'' =
           Some ([LinkDep, RunDep], ''setup_dependent_run_environment'')
       \<and> deptype_and_method ''test'' =
           Some ([LinkDep, RunDep, TestDep], ''setup_dependent_run_environment'')
       \<and> (\<forall>context deptype method.
            deptype_and_method context = Some (deptype, method) \<longrightarrow>
              modifications_from_dependencies w module spec context =
                Some \<lparr> cs_env = fold (\<lambda>d. dependent_environment_hook w method d spec)
                                  (deps deptype) [],
                       cs_module = fold (\<lambda>d. setup_dependent_package w d spec)
                                     (deps deptype) module,
                       cs_trace = concat (map (\<lambda>d. [SetModuleVariables d,
                                                     SetupDependentPackage d spec,
                                                     EnvironmentHook method d spec])
                                            (deps deptype)) \<rparr>
            \<and> set (deps deptype) = {d. reachable deptype spec d}
            \<and> spec \<notin> set (deps deptype)
            \<and> (\<forall>pre d post. deps deptype = pre @ d # post \<longrightarrow>
                  (\<forall>e \<in> set (spec_deps d). follows deptype (fst e) \<longrightarrow> snd e \<in> set pre))
            \<and> (\<forall>contrib.
                  (\<forall>d env. dependent_environment_hook w method d spec env = env @ contrib d) \<longrightarrow>
                  fold (\<lambda>d. dependent_environment_hook w method d spec) (deps deptype) []
                    = concat (map contrib (deps deptype))))
       \<and> (follows [BuildDep, LinkDep, TestDep] tb \<and> follows [BuildDep, LinkDep, TestDep] tc \<and>
          (\<forall>env. dependent_environment_hook w ''setup_dependent_build_environment'' B A env
                   = env @ [SetEnv x vb]) \<and>
          (\<forall>env. dependent_environment_hook w ''setup_dependent_build_environment'' C A env
                   = env @ [SetEnv x vc]) \<longrightarrow>
            (\<exists>st. modifications_from_dependencies w module A ''build'' = Some st \<and>
                  cs_env st = [SetEnv x vc, SetEnv x vb] \<and>
                  apply_modifications (cs_env st) base_env x = Some vb))"
proof -
  have 1: "deptype_and_method ''build'' =
           Some ([BuildDep, LinkDep, TestDep], ''setup_dependent_build_environment'')"
    "deptype_and_method ''run'' =
           Some ([LinkDep, RunDep], ''setup_dependent_run_environment'')"
    "deptype_and_method ''test'' =
           Some ([LinkDep, RunDep, TestDep], ''setup_dependent_run_environment'')"
    by (simp_all add: deptype_and_method_def)
  have 2: "modifications_from_dependencies w module spec ctx =
                Some \<lparr> cs_env = fold (\<lambda>d. dependent_environment_hook w hook_name d spec)
                                  (deps dts) [],
                       cs_module = fold (\<lambda>d. setup_dependent_package w d spec)
                                     (deps dts) module,
                       cs_trace = concat (map (\<lambda>d. [SetModuleVariables d,
                                                     SetupDependentPackage d spec,
                                                     EnvironmentHook hook_name d spec])
                                            (deps dts)) \<rparr>"
    if "deptype_and_method ctx = Some (dts, hook_name)" for ctx dts hook_name
    using that by (simp add: modifications_from_dependencies_def fold_dependency_step deps_def)
  have 3: "set (deps dts) = {d. reachable dts spec d}" "spec \<notin> set (deps dts)"
    for dts
    unfolding deps_def by (rule traverse_reachable, rule root_not_traversed)
  have 4: "\<forall>pre d post. deps dts = pre @ d # post \<longrightarrow>
                  (\<forall>e \<in> set (spec_deps d). follows dts (fst e) \<longrightarrow> snd e \<in> set pre)"
    for dts
    unfolding deps_def using post_order_traverse by blast
  have 5: "\<forall>contrib.
             (\<forall>d env. dependent_environment_hook w hook_name d spec env = env @ contrib d) \<longrightarrow>
             fold (\<lambda>d. dependent_environment_hook w hook_name d spec) (deps dts) []
               = concat (map contrib (deps dts))" for hook_name dts
    using fold_appending_hook [of "\<lambda>d. dependent_environment_hook w hook_name d spec" _
            "deps dts" "[]"] by simp
  have 6: "\<exists>st. modifications_from_dependencies w module A ''build'' = Some st \<and>
                  cs_env st = [SetEnv x vc, SetEnv x vb] \<and>
                  apply_modifications (cs_env st) base_env x = Some vb"
    if h: "follows [BuildDep, LinkDep, TestDep] tb" "follows [BuildDep, LinkDep, TestDep] tc"
      "\<forall>env. dependent_environment_hook w ''setup_dependent_build_environment'' B A env
                   = env @ [SetEnv x vb]"
      "\<forall>env. dependent_environment_hook w ''setup_dependent_build_environment'' C A env
                   = env @ [SetEnv x vc]"
  proof -
    have tr: "traverse PostOrder False [BuildDep, LinkDep, TestDep] A = [C, B]"
      unfolding A_def B_def C_def using chain_traverse_gen [OF h(1,2), of PostOrder] by simp
    show ?thesis
      using h(3,4)
      by (simp add: modifications_from_dependencies_def 1 tr fold_dependency_step
            apply_modifications_def)
  qed
  from 1 2 3 4 5 6 show ?thesis by blast
qed


theorem dependency_composition_witness:
  "deptype_and_method ''build'' =
     Some ([BuildDep, LinkDep, TestDep], ''setup_dependent_build_environment'')
   \<and> follows [BuildDep, LinkDep, TestDep] [LinkDep]
   \<and> follows [BuildDep, LinkDep, TestDep] [BuildDep, LinkDep]
   \<and> traverse PostOrder False [BuildDep, LinkDep, TestDep] example_app
       = [example_zlib, example_libpng]
   \<and> modifications_from_dependencies example_recipe_world [] example_app ''build'' =
       Some \<lparr> cs_env = [SetEnv ''X'' ''zlib'', SetEnv ''X'' ''libpng''],
              cs_module = [''zlib'', ''libpng''],
              cs_trace =
                [SetModuleVariables example_zlib,
                 SetupDependentPackage example_zlib example_app,
                 EnvironmentHook ''setup_dependent_build_environment'' example_zlib example_app,
                 SetModuleVariables example_libpng,
                 SetupDependentPackage example_libpng example_app,
                 EnvironmentHook ''setup_dependent_build_environment'' example_libpng
                   example_app] \<rparr>
   \<and> apply_modifications [SetEnv ''X'' ''zlib'', SetEnv ''X'' ''libpng''] Map.empty ''X''
       = Some ''libpng''"
proof -
  let ?C = "Spec ''zlib'' ''/opt/zlib'' None (Some [''/opt/zlib/include'']) []"
  let ?B = "Spec ''libpng'' ''/opt/libpng'' (Some [''/opt/libpng/lib'', ''/usr/local''])
              (Some [''/opt/libpng/include'', ''/usr'', ''/opt/zlib/include''])
              [([BuildDep, LinkDep], ?C)]"
  let ?A = "Spec ''app'' ''/opt/app'' None None [([LinkDep], ?B)]"
  have names: "example_zlib = ?C" "example_libpng = ?B" "example_app = ?A"
    by (simp_all add: example_zlib_def example_libpng_def example_app_def)
  note th = dependency_composition [where w = example_recipe_world and module = "[]"
          and spec = example_app and base_env = Map.empty and x = "''X''"
          and vb = "''libpng''" and vc = "''zlib''"
          and na = "''app''" and pa = "''/opt/app''" and la = None and ha = None
          and tb = "[LinkDep]" and nb = "''libpng''" and pb = "''/opt/libpng''"
          and lb = "Some [''/opt/libpng/lib'', ''/usr/local'']"
          and hb = "Some [''/opt/libpng/include'', ''/usr'', ''/opt/zlib/include'']"
          and tc = "[BuildDep, LinkDep]" and nc = "''zlib''" and pc = "''/opt/zlib''"
          and lc = None and hc = "Some [''/opt/zlib/include'']"]
  have f: "follows [BuildDep, LinkDep, TestDep] [LinkDep]"
    "follows [BuildDep, LinkDep, TestDep] [BuildDep, LinkDep]"
    by (simp_all add: follows_def)
  have hooks:
    "\<forall>env. dependent_environment_hook example_recipe_world
             ''setup_dependent_build_environment'' ?B ?A env = env @ [SetEnv ''X'' ''libpng'']"
    "\<forall>env. dependent_environment_hook example_recipe_world
             ''setup_dependent_build_environment'' ?C ?A env = env @ [SetEnv ''X'' ''zlib'']"
    by (simp_all add: example_recipe_world_def example_hook_def)
  from th f hooks
  have chain: "\<exists>st. modifications_from_dependencies example_recipe_world [] ?A ''build'' = Some st \<and>
                  cs_env st = [SetEnv ''X'' ''zlib'', SetEnv ''X'' ''libpng''] \<and>
                  apply_modifications (cs_env st) Map.empty ''X'' = Some ''libpng''"
    by blast
  then have ap: "apply_modifications [SetEnv ''X'' ''zlib'', SetEnv ''X'' ''libpng''] Map.empty ''X''
       = Some ''libpng''"
    by auto
  have d: "deptype_and_method ''build'' =
     Some ([BuildDep, LinkDep, TestDep], ''setup_dependent_build_environment'')"
    using th by blast
  have tr: "traverse PostOrder False [BuildDep, LinkDep, TestDep] ?A = [?C, ?B]"
    by (simp add: traverse_def follows_def)
  have m: "modifications_from_dependencies example_recipe_world [] ?A ''build'' =
       Some \<lparr> cs_env = [SetEnv ''X'' ''zlib'', SetEnv ''X'' ''libpng''],
              cs_module = [''zlib'', ''libpng''],
              cs_trace =
                [SetModuleVariables ?C, SetupDependentPackage ?C ?A,
                 EnvironmentHook ''setup_dependent_build_environment'' ?C ?A,
                 SetModuleVariables ?B, SetupDependentPackage ?B ?A,
                 EnvironmentHook ''setup_dependent_build_environment'' ?B ?A] \<rparr>"
    by (simp add: modifications_from_dependencies_def d tr dependency_step_def
          example_recipe_world_def example_hook_def example_setup_dependent_package_def)
  from d f tr m ap show ?thesis by (simp add: names)
qed


end
